theory Spec2Isabelle
  imports Main "HOL-Library.AList" "HOL-Library.Char_ord" "HOL-Library.List_Lexorder"
    "HOL-Library.Word"
begin

section \<open>Python values, errors and names\<close>

text \<open>
  The program is Python 2 (\<^verbatim>\<open>langkit/expressions/base.py\<close>). Exceptions are values of
  the type \<open>error\<close>; a function that may raise returns \<open>error + 'a\<close>, with \<open>Inl\<close>
  the exception that propagates.
\<close>

datatype error =
    DiagnosticError string
  | AssertionError string
  | PyException string
  | AttributeError string
  | IndexError string
  | KeyError string
  | NotImplementedError string

text \<open>
  Modelled from the spec: \<^verbatim>\<open>langkit.diagnostics.check_source_language\<close> is not under
  src/. The spec (section 7) says that its failures are diagnostics that propagate as
  exceptions; with the default severity it raises \<^verbatim>\<open>DiagnosticError\<close> when the
  predicate is false and does nothing otherwise.
\<close>

definition check_source_language :: "bool \<Rightarrow> string \<Rightarrow> error + unit" where
  "check_source_language predicate message =
     (if predicate then Inr () else Inl (DiagnosticError message))"

subsection \<open>Decimal text of integers\<close>

text \<open>Python's \<^verbatim>\<open>str(i)\<close> for a non-negative and for any integer.\<close>

definition digit_char :: "nat \<Rightarrow> char" where
  "digit_char d = char_of (48 + d)"

fun str_nat :: "nat \<Rightarrow> string" where
  "str_nat n = (if n < 10 then [digit_char n] else str_nat (n div 10) @ [digit_char (n mod 10)])"

declare str_nat.simps [simp del]

definition str_int :: "int \<Rightarrow> string" where
  "str_int i = (if i < 0 then CHR ''-'' # str_nat (nat (- i)) else str_nat (nat i))"

subsection \<open>Names\<close>

text \<open>
  \<^verbatim>\<open>langkit.names.Name\<close> is not under src/. A name is modelled by its spelling in
  camel-with-underscores form (\<^verbatim>\<open>Name('Unused_1')\<close>); two names are equal when their
  spellings are. \<^verbatim>\<open>a + b\<close> joins two names with an underscore, \<^verbatim>\<open>n.lower\<close> is the
  lower-case spelling, and \<^verbatim>\<open>Name.from_lower\<close> capitalises each underscore-separated
  word of a lower-case spelling.
\<close>

datatype name = Name (base_name: string)

definition name_add :: "name \<Rightarrow> name \<Rightarrow> name" where
  "name_add a b = Name (base_name a @ ''_'' @ base_name b)"

definition lower_char :: "char \<Rightarrow> char" where
  "lower_char c = (let n = (of_char c :: nat) in if 65 \<le> n \<and> n \<le> 90 then char_of (n + 32) else c)"

definition upper_char :: "char \<Rightarrow> char" where
  "upper_char c = (let n = (of_char c :: nat) in if 97 \<le> n \<and> n \<le> 122 then char_of (n - 32) else c)"

definition str_lower :: "string \<Rightarrow> string" where
  "str_lower s = map lower_char s"

definition lower :: "name \<Rightarrow> string" where
  "lower n = str_lower (base_name n)"

fun capitalize_words :: "bool \<Rightarrow> string \<Rightarrow> string" where
  "capitalize_words first [] = []"
| "capitalize_words first (c # cs) =
     (if c = CHR ''_'' then c # capitalize_words True cs
      else (if first then upper_char c else lower_char c) # capitalize_words False cs)"

definition from_lower :: "string \<Rightarrow> name" where
  "from_lower s = Name (capitalize_words True s)"

subsection \<open>Types of the type registry\<close>

text \<open>
  \<^verbatim>\<open>langkit.compiled_types\<close> is not under src/. A \<^verbatim>\<open>CompiledType\<close> instance is
  modelled by its identity: the built-in singletons the expression compiler names, and
  \<open>DeclaredType n\<close> for any other type of the registry (node types, structs, arrays).
  What the compiler asks of a type (the subtype test \<^verbatim>\<open>matches\<close>, the
  \<^verbatim>\<open>is_refcounted\<close> flag and the display name \<^verbatim>\<open>name.camel\<close>) is a parameter.
\<close>

datatype compiled_type =
    no_compiled_type
  | bool_type
  | long_type
  | symbol_type
  | token_type
  | DeclaredType nat

record type_repo =
  matches :: "compiled_type \<Rightarrow> compiled_type \<Rightarrow> bool"
  is_refcounted :: "compiled_type \<Rightarrow> bool"
  camel :: "compiled_type \<Rightarrow> string"

type_synonym location = "(string \<times> nat) option"

subsection \<open>Values handed to the expression compiler\<close>

text \<open>
  A Python value as \<^verbatim>\<open>unsugar\<close> and \<^verbatim>\<open>construct\<close> can receive it. Python 2 has
  two classes of integers: \<^verbatim>\<open>int\<close>, a signed machine integer (a C
  \<^verbatim>\<open>long\<close>) that holds the values from \<^verbatim>\<open>-sys.maxint - 1\<close> to
  \<^verbatim>\<open>sys.maxint\<close> only, and \<^verbatim>\<open>long\<close>, which is unbounded and is not a subclass
  of \<^verbatim>\<open>int\<close>. The machine integer is taken to have 64 bits, as on the 64-bit Unix
  platforms, where \<^verbatim>\<open>sys.maxint\<close> is \<open>2 ^ 63 - 1\<close>. \<open>PyInt w\<close> is the instance
  of \<^verbatim>\<open>int\<close> of value \<open>sint w\<close> and \<open>PyLong i\<close> the instance of
  \<^verbatim>\<open>long\<close> of value \<open>i\<close>; \<open>PyBool\<close> is an instance of \<^verbatim>\<open>bool\<close>, which
  is a subclass of \<^verbatim>\<open>int\<close>. \<open>PyDefer\<close> is a \<^verbatim>\<open>TypeRepo.Defer\<close>;
  \<open>PyObject\<close> is any other object, given by its \<^verbatim>\<open>str()\<close> text.

  An abstract expression carries the location recorded by
  \<^verbatim>\<open>AbstractExpression.__init__\<close>. \<open>AbstractVariable v\<close> denotes the variable object
  at address \<open>v\<close>; \<open>AbstractNode cls i repr loc\<close> is an instance, at address \<open>i\<close>, of
  any other subclass of \<^verbatim>\<open>AbstractExpression\<close>.
\<close>

datatype pyval =
    PyNone
  | PyBool bool
  | PyInt "64 word"
  | PyLong int
  | PyStr string
  | PyDefer nat
  | PyExpr abstract_expression
  | PyObject string
and abstract_expression =
    Literal pyval location
  | SymbolLiteral string location
  | AbstractVariable nat
  | AbstractNode string nat string location

fun py_str :: "pyval \<Rightarrow> string"
and expr_repr :: "abstract_expression \<Rightarrow> string" where
  "py_str PyNone = ''None''"
| "py_str (PyBool b) = (if b then ''True'' else ''False'')"
| "py_str (PyInt w) = str_int (sint w)"
| "py_str (PyLong i) = str_int i"
| "py_str (PyStr s) = s"
| "py_str (PyDefer d) = ''<Defer>''"
| "py_str (PyExpr e) = expr_repr e"
| "py_str (PyObject s) = s"
| "expr_repr (Literal v loc) = ''<Literal '' @ py_str v @ ''>''"
| "expr_repr (SymbolLiteral s loc) = ''<Symbol '' @ s @ ''>''"
| "expr_repr (AbstractVariable v) = ''<Var>''"
| "expr_repr (AbstractNode cls i r loc) = r"

text \<open>
  \<^verbatim>\<open>sys.maxint\<close>, and the object that an integer of value \<open>i\<close> is (an integer
  literal of the language specification, the result of integer arithmetic): an
  \<^verbatim>\<open>int\<close> when the value fits, a \<^verbatim>\<open>long\<close> otherwise.
\<close>

definition sys_maxint :: int where
  "sys_maxint = 2 ^ 63 - 1"

definition py_integer :: "int \<Rightarrow> pyval" where
  "py_integer i = (if - sys_maxint - 1 \<le> i \<and> i \<le> sys_maxint then PyInt (word_of_int i) else PyLong i)"

section \<open>unsugar\<close>

text \<open>
  \<^verbatim>\<open>unsugar(expr, ignore_errors=False)\<close>. \<open>defer_get\<close> is \<^verbatim>\<open>TypeRepo.Defer.get\<close>
  (not under src/); \<open>here\<close> is the location \<^verbatim>\<open>extract_library_location()\<close> gives
  to a node created by this call.
\<close>

definition unsugar :: "(nat \<Rightarrow> pyval) \<Rightarrow> location \<Rightarrow> pyval \<Rightarrow> bool \<Rightarrow> error + pyval" where
  "unsugar defer_get here expr ignore_errors =
     (case expr of
        PyNone \<Rightarrow> Inr PyNone
      | _ \<Rightarrow>
        (let expr' = (case expr of
                        PyBool b \<Rightarrow> PyExpr (Literal expr here)
                      | PyInt i \<Rightarrow> PyExpr (Literal expr here)
                      | PyStr s \<Rightarrow> PyExpr (SymbolLiteral s here)
                      | PyDefer d \<Rightarrow> defer_get d
                      | _ \<Rightarrow> expr)
         in case check_source_language
                   (ignore_errors \<or> (case expr' of PyExpr e \<Rightarrow> True | _ \<Rightarrow> False))
                   (''Invalid abstract expression: '' @ py_str expr') of
              Inl e \<Rightarrow> Inl e
            | Inr u \<Rightarrow> Inr expr'))"

section \<open>Program state\<close>

text \<open>
  Objects that the program mutates or compares by identity live in stores indexed by
  their address. \<open>local_var\<close> is \<^verbatim>\<open>LocalVars.LocalVar\<close>; its \<open>lv_scope\<close> is the
  scope it was added to, as the pair of the owning property and the scope's address.
  \<open>scope\<close> is \<^verbatim>\<open>LocalVars.Scope\<close> as far as variable creation uses it (its
  \<^verbatim>\<open>index\<close>, used for the names of finalizers, is left out); its variables are
  given by the property whose table holds them and their name. \<open>local_vars\<close> is
  \<^verbatim>\<open>LocalVars\<close>: the dict \<^verbatim>\<open>local_vars\<close> as an association list, the scopes by
  address (the root scope at 0) and the address of the current scope.
\<close>

record local_var =
  lv_name :: name
  lv_type :: "compiled_type option"
  lv_scope :: "(nat \<times> nat) option"

record scope =
  sc_parent :: "nat option"
  sc_sub_scopes :: "nat list"
  sc_variables :: "(nat \<times> name) list"

record local_vars =
  local_vars_tbl :: "(name \<times> local_var) list"
  scopes :: "scope list"
  current_scope :: nat

text \<open>
  \<open>abstract_variable\<close> is an \<^verbatim>\<open>AbstractVariable\<close> object; \<open>av_kind\<close> tells the
  subclass (\<^verbatim>\<open>DynamicVariable\<close> with its \<^verbatim>\<open>argument_name\<close>, the
  \<^verbatim>\<open>SelfVariable\<close> singleton). \<open>av_construct_cache\<close> is the dict
  \<^verbatim>\<open>construct_cache\<close>, from (name, type) to the address of a \<^verbatim>\<open>VariableExpr\<close>.
\<close>

datatype var_kind = PlainVariable | DynamicVariable name | SelfVariable

record abstract_variable =
  av_kind :: var_kind
  av_type :: "compiled_type option"
  av_local_var :: "(nat \<times> name) option"
  av_name :: "name option"
  av_source_name :: "name option"
  av_construct_cache :: "((name option \<times> compiled_type option) \<times> nat) list"
  av_ignored :: bool
  av_location :: location

text \<open>
  \<open>resolved_expression\<close> is a \<^verbatim>\<open>ResolvedExpression\<close> object: the attributes of the
  base class and, in \<open>re_class\<close>, its subclass with the attributes the subclass adds.
  \<open>CastExpr\<close> is \<^verbatim>\<open>Cast.Expr\<close> of \<^verbatim>\<open>langkit.expressions.structs\<close>;
  \<open>OtherExpr\<close> is any further subclass, by its class name.
\<close>

datatype expr_class =
    VariableExpr "name option" "nat option" bool
  | LiteralExpr string "nat list"
  | SymbolLiteralExpr string
  | UncheckedCastExpr nat compiled_type
  | CastExpr nat compiled_type
  | OtherExpr string

record resolved_expression =
  re_class :: expr_class
  re_static_type :: "compiled_type option"
  re_result_var :: "(nat \<times> name) option"
  re_skippable_refcount :: bool
  re_abstract_expr :: "abstract_expression option"
  re_render_pre_called :: bool
  re_location :: location

text \<open>
  \<open>argument\<close> is \<^verbatim>\<open>langkit.compiled_types.Argument\<close> with the attribute
  \<^verbatim>\<open>var\<close> (the address of its \<^verbatim>\<open>AbstractVariable\<close>) that the expression compiler
  reads. \<open>property_def\<close> holds the attributes of a \<^verbatim>\<open>PropertyDef\<close> that variable
  creation and dynamic-variable binding use.
\<close>

record argument =
  arg_name :: name
  arg_type :: compiled_type
  arg_var :: nat

record property_def =
  pd_arguments :: "argument list"
  pd_vars :: local_vars
  pd_dynvar_binding_stack :: "nat list"

text \<open>
  The process-wide state: the three object stores (\<open>exprs_next\<close> and \<open>variables_next\<close>
  are the next free addresses), the class attribute
  \<^verbatim>\<open>PropertyDef.__current_properties__\<close> (a stack whose top is the last element;
  \<open>None\<close> is pushed by \<^verbatim>\<open>bind_none\<close>) and the next values of the counters
  \<^verbatim>\<open>AbstractVariable.unused_count\<close> and \<^verbatim>\<open>ResolvedExpression.expr_count\<close>.
\<close>

record state =
  exprs :: "nat \<Rightarrow> resolved_expression"
  exprs_next :: nat
  variables :: "nat \<Rightarrow> abstract_variable"
  variables_next :: nat
  properties :: "nat \<Rightarrow> property_def"
  current_properties :: "nat option list"
  unused_count :: nat
  expr_count :: nat

type_synonym 'a action = "state \<Rightarrow> (error + 'a) \<times> state"

section \<open>Local variables\<close>

text \<open>
  The \<^verbatim>\<open>while name in self.local_vars\<close> loop of \<^verbatim>\<open>LocalVars.create_scopeless\<close>,
  with its variables \<^verbatim>\<open>i\<close> and \<^verbatim>\<open>name\<close>. It terminates because the
  suffixed names are pairwise different and the table is finite: \<open>pending\<close>, the
  numbers above \<open>i\<close> whose suffixed name is in the table, shrinks at every turn
  (\<open>nat_of_str\<close> reads a decimal text back and gives that \<open>str_nat\<close> is injective).
\<close>

definition nat_of_str :: "string \<Rightarrow> nat" where
  "nat_of_str s = foldl (\<lambda>a c. 10 * a + (of_char c - 48)) 0 s"

definition pending :: "(name \<times> local_var) list \<Rightarrow> name \<Rightarrow> nat \<Rightarrow> nat set" where
  "pending tbl orig i = {j. i < j \<and> name_add orig (Name (str_nat j)) \<in> fst ` set tbl}"

function unique_name :: "(name \<times> local_var) list \<Rightarrow> name \<Rightarrow> nat \<Rightarrow> name \<Rightarrow> name" where
  "unique_name tbl orig_name i nm =
     (if nm \<in> fst ` set tbl
      then unique_name tbl orig_name (i + 1) (name_add orig_name (Name (str_nat (i + 1))))
      else nm)"
  by pat_completeness auto

text \<open>
  \<^verbatim>\<open>LocalVars.create_scopeless(name, type)\<close> on the table of one property; the
  caller's \<^verbatim>\<open>names.Name.get\<close> has turned a string into a name. It returns the new
  \<^verbatim>\<open>LocalVar\<close> and the updated \<^verbatim>\<open>LocalVars\<close>.
\<close>

definition create_scopeless :: "local_vars \<Rightarrow> name \<Rightarrow> compiled_type option \<Rightarrow> local_var \<times> local_vars" where
  "create_scopeless lvs nm ty =
     (let nm' = unique_name (local_vars_tbl lvs) nm 0 nm;
          ret = \<lparr>lv_name = nm', lv_type = ty, lv_scope = None\<rparr>
      in (ret, lvs\<lparr>local_vars_tbl := AList.update nm' ret (local_vars_tbl lvs)\<rparr>))"

text \<open>\<^verbatim>\<open>LocalVars.__init__\<close>: an empty table and a root scope, which is current.\<close>

definition LocalVars_init :: local_vars where
  "LocalVars_init =
     \<lparr>local_vars_tbl = [],
      scopes = [\<lparr>sc_parent = None, sc_sub_scopes = [], sc_variables = []\<rparr>],
      current_scope = 0\<rparr>"

text \<open>\<^verbatim>\<open>PropertyDef.get()\<close>: the top of the stack of bound properties, or \<^verbatim>\<open>None\<close>.\<close>

definition PropertyDef_get :: "state \<Rightarrow> nat option" where
  "PropertyDef_get s = (case current_properties s of [] \<Rightarrow> None | ps \<Rightarrow> last ps)"

text \<open>
  \<^verbatim>\<open>Scope.add(var)\<close> for the scope at address \<open>k\<close> of property \<open>q\<close> and the
  variable named \<open>nm\<close> in the table of property \<open>p\<close>.
\<close>

definition Scope_add :: "nat \<Rightarrow> nat \<Rightarrow> nat \<Rightarrow> name \<Rightarrow> unit action" where
  "Scope_add q k p nm s =
     (case map_of (local_vars_tbl (pd_vars (properties s p))) nm of
        None \<Rightarrow> (Inl (AttributeError ''_scope''), s)
      | Some var \<Rightarrow>
        (if lv_scope var \<noteq> None
         then (Inl (AssertionError ''Trying to associate a variable to some scope whereas it already has one''), s)
         else
           (let s1 = s\<lparr>properties := (properties s)(q :=
                       (properties s q)\<lparr>pd_vars := (pd_vars (properties s q))\<lparr>scopes :=
                          (scopes (pd_vars (properties s q)))[k :=
                             (scopes (pd_vars (properties s q)) ! k)\<lparr>sc_variables :=
                                sc_variables (scopes (pd_vars (properties s q)) ! k) @ [(p, nm)]\<rparr>]\<rparr>\<rparr>)\<rparr>;
                s2 = s1\<lparr>properties := (properties s1)(p :=
                       (properties s1 p)\<lparr>pd_vars := (pd_vars (properties s1 p))\<lparr>local_vars_tbl :=
                          AList.update nm (var\<lparr>lv_scope := Some (q, k)\<rparr>)
                            (local_vars_tbl (pd_vars (properties s1 p)))\<rparr>\<rparr>)\<rparr>
            in (Inr (), s2))))"

text \<open>
  \<^verbatim>\<open>LocalVars.create(name, type)\<close> on the \<^verbatim>\<open>LocalVars\<close> of property \<open>p\<close>: the
  variable is created in that table and added to the current scope of the currently
  bound property (\<^verbatim>\<open>PropertyDef.get_scope()\<close>), which fails when no property is
  bound. It returns the name of the new variable.
\<close>

definition create :: "nat \<Rightarrow> name \<Rightarrow> compiled_type option \<Rightarrow> name action" where
  "create p nm ty s =
     (let (result, lvs) = create_scopeless (pd_vars (properties s p)) nm ty;
          s1 = s\<lparr>properties := (properties s)(p := (properties s p)\<lparr>pd_vars := lvs\<rparr>)\<rparr>
      in case PropertyDef_get s1 of
           None \<Rightarrow> (Inl (AttributeError ''vars''), s1)
         | Some q \<Rightarrow>
           (case Scope_add q (current_scope (pd_vars (properties s1 q))) p (lv_name result) s1 of
              (Inl e, s2) \<Rightarrow> (Inl e, s2)
            | (Inr u, s2) \<Rightarrow> (Inr (lv_name result), s2)))"

section \<open>Resolved expressions\<close>

text \<open>
  The \<^verbatim>\<open>type\<close> property of \<^verbatim>\<open>ResolvedExpression\<close>: the static type, and
  \<^verbatim>\<open>NotImplementedError\<close> when the class has not set one.
\<close>

definition type_of_expr :: "resolved_expression \<Rightarrow> error + compiled_type" where
  "type_of_expr e =
     (case re_static_type e of
        None \<Rightarrow> Inl (NotImplementedError ''must redefine the type property, or to fill the static_type class field'')
      | Some t \<Rightarrow> Inr t)"

text \<open>
  \<^verbatim>\<open>ResolvedExpression.__init__(result_var_name, skippable_refcount, abstract_expr)\<close>,
  run on a new object whose subclass constructor has set \<open>cls\<close> and \<open>static_type\<close>.
  With a result variable name, a local variable of the node's type is created in the
  currently bound property. The new object is stored at the next free address, which
  is returned. No other check is made here.
\<close>

definition ResolvedExpression_init ::
  "expr_class \<Rightarrow> compiled_type option \<Rightarrow> string option \<Rightarrow> bool \<Rightarrow> abstract_expression option \<Rightarrow> nat action" where
  "ResolvedExpression_init cls static_type result_var_name skippable abstract s =
     (let obj = \<lparr>re_class = cls, re_static_type = static_type, re_result_var = None,
                 re_skippable_refcount = skippable, re_abstract_expr = abstract,
                 re_render_pre_called = False, re_location = None\<rparr>;
          store = (\<lambda>o' s'. (Inr (exprs_next s'),
                     s'\<lparr>exprs := (exprs s')(exprs_next s' := o'), exprs_next := exprs_next s' + 1\<rparr>))
      in if result_var_name \<noteq> None \<and> result_var_name \<noteq> Some []
         then (case PropertyDef_get s of
                 None \<Rightarrow> (Inl (AttributeError ''vars''), s)
               | Some p \<Rightarrow>
                 (case type_of_expr obj of
                    Inl e \<Rightarrow> (Inl e, s)
                  | Inr t \<Rightarrow>
                    (case create p (Name (the result_var_name)) (Some t) s of
                       (Inl e, s1) \<Rightarrow> (Inl e, s1)
                     | (Inr nm, s1) \<Rightarrow> store (obj\<lparr>re_result_var := Some (p, nm)\<rparr>) s1)))
         else store obj s)"

text \<open>
  The constructors of the subclasses: \<^verbatim>\<open>VariableExpr(type, name, abstract_var)\<close>,
  whose \<^verbatim>\<open>assert_type(type, CompiledType)\<close> fails on \<^verbatim>\<open>None\<close>;
  \<^verbatim>\<open>LiteralExpr(template, expr_type, operands)\<close>;
  \<^verbatim>\<open>UncheckedCastExpr(expr, dest_type)\<close>; \<^verbatim>\<open>SymbolLiteral.Expr(name)\<close>, a
  \<^verbatim>\<open>ComputingExpr\<close> with the result variable \<^verbatim>\<open>Sym\<close>.
\<close>

definition VariableExpr_init :: "compiled_type option \<Rightarrow> name option \<Rightarrow> nat option \<Rightarrow> nat action" where
  "VariableExpr_init ty nm abstract_var s =
     (case ty of
        None \<Rightarrow> (Inl (AssertionError ''assert_type''), s)
      | Some t \<Rightarrow> ResolvedExpression_init (VariableExpr nm abstract_var False) (Some t) None True None s)"

definition LiteralExpr_init :: "string \<Rightarrow> compiled_type option \<Rightarrow> nat list \<Rightarrow> nat action" where
  "LiteralExpr_init template expr_type operands =
     ResolvedExpression_init (LiteralExpr template operands) expr_type None True None"

definition UncheckedCastExpr_init :: "nat \<Rightarrow> compiled_type \<Rightarrow> nat action" where
  "UncheckedCastExpr_init expr dest_type =
     ResolvedExpression_init (UncheckedCastExpr expr dest_type) (Some dest_type) None False None"

definition SymbolLiteralExpr_init :: "string \<Rightarrow> abstract_expression option \<Rightarrow> nat action" where
  "SymbolLiteralExpr_init nm abstract =
     ResolvedExpression_init (SymbolLiteralExpr nm) (Some symbol_type) (Some ''Sym'') False abstract"

text \<open>
  Modelled from the spec: \<^verbatim>\<open>Cast.Expr\<close> is defined in
  \<^verbatim>\<open>langkit.expressions.structs\<close>, which is not under src/. The spec calls it the
  implicit downcast wrapper node inserted around the operand; it is modelled as a new
  node of class \<open>CastExpr\<close> holding the operand and having the destination type.
\<close>

definition CastExpr_init :: "nat \<Rightarrow> compiled_type \<Rightarrow> nat action" where
  "CastExpr_init expr dest_type =
     ResolvedExpression_init (CastExpr expr dest_type) (Some dest_type) None False None"

section \<open>Abstract variables\<close>

text \<open>
  \<^verbatim>\<open>AbstractVariable.create_local_variable()\<close> without a scope, for the variable at
  address \<open>v\<close>: the local variable is created scopeless in the currently bound property
  and the variable takes its name.
\<close>

definition create_local_variable :: "nat \<Rightarrow> unit action" where
  "create_local_variable v s =
     (if av_local_var (variables s v) \<noteq> None then (Inl (AssertionError ''local_var''), s)
      else case PropertyDef_get s of
             None \<Rightarrow> (Inl (AttributeError ''vars''), s)
           | Some p \<Rightarrow>
             (case av_name (variables s v) of
                None \<Rightarrow> (Inl (AttributeError ''name''), s)
              | Some nm \<Rightarrow>
                (let (lv, lvs) = create_scopeless (pd_vars (properties s p)) nm (av_type (variables s v));
                     s1 = s\<lparr>properties := (properties s)(p := (properties s p)\<lparr>pd_vars := lvs\<rparr>)\<rparr>
                 in (Inr (), s1\<lparr>variables := (variables s1)(v :=
                       (variables s1 v)\<lparr>av_local_var := Some (p, lv_name lv),
                                         av_name := Some (lv_name lv)\<rparr>)\<rparr>))))"

text \<open>
  \<^verbatim>\<open>AbstractVariable.__init__(name, type, create_local, source_name)\<close>, with the
  location \<open>here\<close> that \<^verbatim>\<open>AbstractExpression.__init__\<close> records. A name whose
  lower-case spelling is \<^verbatim>\<open>_\<close> is replaced by \<^verbatim>\<open>Unused_<i>\<close> for the next value
  \<open>i\<close> of the class-wide counter. The new object is stored at the next free address,
  which is returned.
\<close>

definition AbstractVariable_init ::
  "var_kind \<Rightarrow> location \<Rightarrow> name option \<Rightarrow> compiled_type option \<Rightarrow> bool \<Rightarrow> name option \<Rightarrow> nat action" where
  "AbstractVariable_init kind here nm ty create_local source_name s =
     (let (nm1, s1) =
            (case nm of
               None \<Rightarrow> (nm, s)
             | Some n \<Rightarrow>
               (if lower n = ''_''
                then (Some (Name (''Unused_'' @ str_nat (unused_count s))),
                      s\<lparr>unused_count := unused_count s + 1\<rparr>)
                else (nm, s)));
          v = variables_next s1;
          obj = \<lparr>av_kind = kind, av_type = ty, av_local_var = None, av_name = nm1,
                 av_source_name = None, av_construct_cache = [], av_ignored = False,
                 av_location = here\<rparr>;
          s2 = s1\<lparr>variables := (variables s1)(v := obj), variables_next := v + 1\<rparr>;
          finish = (\<lambda>s'. (Inr v, s'\<lparr>variables := (variables s')(v :=
                      (variables s' v)\<lparr>av_source_name := source_name, av_construct_cache := [],
                                        av_ignored := False\<rparr>)\<rparr>))
      in if create_local
         then (case create_local_variable v s2 of
                 (Inl e, s3) \<Rightarrow> (Inl e, s3)
               | (Inr u, s3) \<Rightarrow> finish s3)
         else finish s2)"

text \<open>
  \<^verbatim>\<open>AbstractVariable.construct()\<close>. The \<^verbatim>\<open>type\<close> property is
  \<^verbatim>\<open>resolve_type(self._type)\<close>; \<^verbatim>\<open>resolve_type\<close> (not under src/) leaves
  \<^verbatim>\<open>None\<close> and a resolved type as they are.
\<close>

definition AbstractVariable_construct :: "nat \<Rightarrow> nat action" where
  "AbstractVariable_construct v s =
     (let typ = av_type (variables s v);
          key = (av_name (variables s v), typ)
      in case map_of (av_construct_cache (variables s v)) key of
           Some expr \<Rightarrow> (Inr expr, s)
         | None \<Rightarrow>
           (case VariableExpr_init typ (av_name (variables s v)) (Some v) s of
              (Inl e, s1) \<Rightarrow> (Inl e, s1)
            | (Inr expr, s1) \<Rightarrow>
              (Inr expr, s1\<lparr>variables := (variables s1)(v :=
                 (variables s1 v)\<lparr>av_construct_cache :=
                    AList.update key expr (av_construct_cache (variables s1 v))\<rparr>)\<rparr>)))"

text \<open>
  \<^verbatim>\<open>AbstractVariable.ignored\<close>, \<^verbatim>\<open>AbstractVariable.tag_ignored()\<close> and
  \<^verbatim>\<open>AbstractVariable.set_type(type)\<close>.
\<close>

definition AbstractVariable_ignored :: "abstract_variable \<Rightarrow> bool" where
  "AbstractVariable_ignored var = (av_ignored var \<or> av_source_name var = Some (from_lower ''_''))"

definition tag_ignored :: "nat \<Rightarrow> state \<Rightarrow> state" where
  "tag_ignored v s = s\<lparr>variables := (variables s)(v := (variables s v)\<lparr>av_ignored := True\<rparr>)\<rparr>"

section \<open>Dynamic variables\<close>

text \<open>
  \<^verbatim>\<open>DynamicVariable.is_accepted_in(prop)\<close>: the loop over the arguments of the
  property, comparing each argument's variable with \<^verbatim>\<open>self\<close> by identity.
\<close>

fun accepted_loop :: "nat \<Rightarrow> argument list \<Rightarrow> bool" where
  "accepted_loop v [] = False"
| "accepted_loop v (arg # args) = (if arg_var arg = v then True else accepted_loop v args)"

definition is_accepted_in :: "state \<Rightarrow> nat \<Rightarrow> nat option \<Rightarrow> bool" where
  "is_accepted_in s v prop =
     (case prop of None \<Rightarrow> False | Some p \<Rightarrow> accepted_loop v (pd_arguments (properties s p)))"

definition is_bound :: "state \<Rightarrow> nat \<Rightarrow> bool" where
  "is_bound s v = (is_accepted_in s v (PropertyDef_get s) \<or> av_name (variables s v) \<noteq> None)"

text \<open>
  \<^verbatim>\<open>DynamicVariable.construct()\<close> for the dynamic variable at address \<open>v\<close> whose
  \<^verbatim>\<open>argument_name\<close> is \<open>an\<close>.
\<close>

definition not_bound_message :: "name \<Rightarrow> string" where
  "not_bound_message an =
     lower an @ '' is not bound in this context: please use the .bind construct to bind it first.''"

definition DynamicVariable_construct :: "name \<Rightarrow> nat \<Rightarrow> nat action" where
  "DynamicVariable_construct an v s =
     (case check_source_language (is_bound s v) (not_bound_message an) of
        Inl e \<Rightarrow> (Inl e, s)
      | Inr u \<Rightarrow> AbstractVariable_construct v s)"

section \<open>Context managers\<close>

text \<open>
  A function decorated with \<^verbatim>\<open>@contextmanager\<close> whose body is
  \<^verbatim>\<open>before; yield; after\<close>, with no \<^verbatim>\<open>try\<close> around the \<^verbatim>\<open>yield\<close>, used as
  \<^verbatim>\<open>with f(...): body\<close>. \<open>before\<close> runs on entry and hands its local variables
  to \<open>after\<close>. When the body raises, \<^verbatim>\<open>__exit__\<close> throws the exception into the
  generator at the \<^verbatim>\<open>yield\<close>; nothing handles it there, so the statements after
  the \<^verbatim>\<open>yield\<close> do not run and the exception propagates.
\<close>

definition contextmanager :: "'g action \<Rightarrow> ('g \<Rightarrow> unit action) \<Rightarrow> 'a action \<Rightarrow> 'a action" where
  "contextmanager before after body s =
     (case before s of
        (Inl e, s1) \<Rightarrow> (Inl e, s1)
      | (Inr g, s1) \<Rightarrow>
        (case body s1 of
           (Inl e, s2) \<Rightarrow> (Inl e, s2)
         | (Inr r, s2) \<Rightarrow>
           (case after g s2 of
              (Inl e, s3) \<Rightarrow> (Inl e, s3)
            | (Inr u, s3) \<Rightarrow> (Inr r, s3))))"

text \<open>
  \<^verbatim>\<open>list.pop()\<close> on the stack of bound properties, \<^verbatim>\<open>PropertyDef.bind()\<close> for
  the property at address \<open>p\<close>, and \<^verbatim>\<open>PropertyDef.bind_none()\<close>.
\<close>

definition pop_current_property :: "unit action" where
  "pop_current_property s =
     (if current_properties s = [] then (Inl (IndexError ''pop from empty list''), s)
      else (Inr (), s\<lparr>current_properties := butlast (current_properties s)\<rparr>))"

definition PropertyDef_bind :: "nat \<Rightarrow> 'a action \<Rightarrow> 'a action" where
  "PropertyDef_bind p =
     contextmanager (\<lambda>s. (Inr (), s\<lparr>current_properties := current_properties s @ [Some p]\<rparr>))
                    (\<lambda>g. pop_current_property)"

definition PropertyDef_bind_none :: "'a action \<Rightarrow> 'a action" where
  "PropertyDef_bind_none =
     contextmanager (\<lambda>s. (Inr (), s\<lparr>current_properties := current_properties s @ [None]\<rparr>))
                    (\<lambda>g. pop_current_property)"

text \<open>\<^verbatim>\<open>SelfVariable.bind_type(type)\<close> for the variable at address \<open>v\<close>.\<close>

definition bind_type :: "nat \<Rightarrow> compiled_type option \<Rightarrow> 'a action \<Rightarrow> 'a action" where
  "bind_type v ty =
     contextmanager
       (\<lambda>s. (Inr (av_type (variables s v)),
              s\<lparr>variables := (variables s)(v := (variables s v)\<lparr>av_type := ty\<rparr>)\<rparr>))
       (\<lambda>old_type s. (Inr (),
              s\<lparr>variables := (variables s)(v := (variables s v)\<lparr>av_type := old_type\<rparr>)\<rparr>))"

text \<open>
  \<^verbatim>\<open>DynamicVariable._bind(name)\<close> for the variable at address \<open>v\<close>. The generator
  keeps the property \<open>p\<close> bound at entry and the saved name.
\<close>

definition DynamicVariable_bind_enter :: "nat \<Rightarrow> name option \<Rightarrow> (nat \<times> name option) action" where
  "DynamicVariable_bind_enter v nm s =
     (let p = PropertyDef_get s;
          saved = av_name (variables s v);
          s1 = s\<lparr>variables := (variables s)(v := (variables s v)\<lparr>av_name := nm\<rparr>)\<rparr>
      in case p of
           None \<Rightarrow> (Inl (AttributeError ''dynvar_binding_stack''), s1)
         | Some q \<Rightarrow>
           (Inr (q, saved),
            s1\<lparr>properties := (properties s1)(q := (properties s1 q)\<lparr>pd_dynvar_binding_stack :=
                  pd_dynvar_binding_stack (properties s1 q) @ [v]\<rparr>)\<rparr>))"

definition DynamicVariable_bind_exit :: "nat \<Rightarrow> nat \<times> name option \<Rightarrow> unit action" where
  "DynamicVariable_bind_exit v g s =
     (let (q, saved) = g;
          s1 = s\<lparr>variables := (variables s)(v := (variables s v)\<lparr>av_name := saved\<rparr>)\<rparr>;
          st = pd_dynvar_binding_stack (properties s1 q)
      in if st = [] then (Inl (IndexError ''pop from empty list''), s1)
         else
           (let s2 = s1\<lparr>properties := (properties s1)(q :=
                       (properties s1 q)\<lparr>pd_dynvar_binding_stack := butlast st\<rparr>)\<rparr>
            in if last st = v then (Inr (), s2) else (Inl (AssertionError ''pop() is self''), s2)))"

definition DynamicVariable_bind :: "nat \<Rightarrow> name option \<Rightarrow> 'a action \<Rightarrow> 'a action" where
  "DynamicVariable_bind v nm =
     contextmanager (DynamicVariable_bind_enter v nm) (DynamicVariable_bind_exit v)"


section \<open>Literals\<close>

text \<open>
  The classes \<^verbatim>\<open>type(x)\<close> can be, with \<^verbatim>\<open>issubclass\<close>: \<^verbatim>\<open>bool\<close> is a subclass
  of \<^verbatim>\<open>int\<close>, and \<^verbatim>\<open>long\<close> is not.
\<close>

datatype py_class = Class_bool | Class_int | Class_long | Class_str | Class_NoneType | Class_other

fun py_type :: "pyval \<Rightarrow> py_class" where
  "py_type PyNone = Class_NoneType"
| "py_type (PyBool b) = Class_bool"
| "py_type (PyInt i) = Class_int"
| "py_type (PyLong i) = Class_long"
| "py_type (PyStr s) = Class_str"
| "py_type (PyDefer d) = Class_other"
| "py_type (PyExpr e) = Class_other"
| "py_type (PyObject s) = Class_other"

definition issubclass :: "py_class \<Rightarrow> py_class \<Rightarrow> bool" where
  "issubclass c d = (c = d \<or> (c = Class_bool \<and> d = Class_int))"

text \<open>
  \<^verbatim>\<open>langkit.utils.dispatch_on_type\<close> is not under src/. It is modelled as its call
  site in \<^verbatim>\<open>Literal.construct\<close> describes it (bool needs to be before int in the
  table): the action of the first entry whose class the given type is a subclass of,
  and the given exception when there is none.
\<close>

fun dispatch_on_type :: "py_class \<Rightarrow> (py_class \<times> 'a) list \<Rightarrow> error \<Rightarrow> error + 'a" where
  "dispatch_on_type t [] exc = Inl exc"
| "dispatch_on_type t ((target_type, action) # rest) exc =
     (if issubclass t target_type then Inr action else dispatch_on_type t rest exc)"

text \<open>\<^verbatim>\<open>Literal.construct()\<close> for \<^verbatim>\<open>Literal(literal)\<close>.\<close>

definition Literal_construct :: "pyval \<Rightarrow> nat action" where
  "Literal_construct literal s =
     (case dispatch_on_type (py_type literal)
             [(Class_bool, (py_str literal, bool_type)),
              (Class_int, (py_str literal, long_type))]
             (DiagnosticError ''Invalid abstract expression type: {}'') of
        Inl e \<Rightarrow> (Inl e, s)
      | Inr (lit_str, rtype) \<Rightarrow> LiteralExpr_init lit_str (Some rtype) [] s)"

section \<open>construct\<close>

text \<open>
  The \<^verbatim>\<open>construct()\<close> method of an abstract expression, by its class. \<open>methods\<close>
  gives the method of the classes that are not modelled here, by the address of the
  node.
\<close>

definition node_construct :: "(nat \<Rightarrow> nat action) \<Rightarrow> abstract_expression \<Rightarrow> nat action" where
  "node_construct methods e s =
     (case e of
        Literal v loc \<Rightarrow> Literal_construct v s
      | SymbolLiteral nm loc \<Rightarrow> SymbolLiteralExpr_init nm (Some e) s
      | AbstractVariable v \<Rightarrow>
          (case av_kind (variables s v) of
             DynamicVariable an \<Rightarrow> DynamicVariable_construct an v s
           | _ \<Rightarrow> AbstractVariable_construct v s)
      | AbstractNode cls i r loc \<Rightarrow> methods i s)"

definition expr_location :: "state \<Rightarrow> abstract_expression \<Rightarrow> location" where
  "expr_location s e =
     (case e of
        Literal v loc \<Rightarrow> loc
      | SymbolLiteral nm loc \<Rightarrow> loc
      | AbstractVariable v \<Rightarrow> av_location (variables s v)
      | AbstractNode cls i r loc \<Rightarrow> loc)"

text \<open>
  The second argument of \<^verbatim>\<open>construct\<close>: a type or a predicate on types. A message
  template is a format string with the holes \<^verbatim>\<open>{expected}\<close> and \<^verbatim>\<open>{expr_type}\<close>;
  formatting it without a value for a hole it has raises \<^verbatim>\<open>KeyError\<close>.
\<close>

datatype expected = ExpectedType compiled_type | ExpectedPred "compiled_type \<Rightarrow> bool"

datatype msg_part = Text string | Hole_expected | Hole_expr_type

fun format_msg :: "msg_part list \<Rightarrow> string option \<Rightarrow> string \<Rightarrow> error + string" where
  "format_msg [] expected expr_type = Inr []"
| "format_msg (part # rest) expected expr_type =
     (case (case part of
              Text t \<Rightarrow> Inr t
            | Hole_expected \<Rightarrow> (case expected of None \<Rightarrow> Inl (KeyError ''expected'') | Some x \<Rightarrow> Inr x)
            | Hole_expr_type \<Rightarrow> Inr expr_type) of
        Inl e \<Rightarrow> Inl e
      | Inr t \<Rightarrow> (case format_msg rest expected expr_type of Inl e \<Rightarrow> Inl e | Inr r \<Rightarrow> Inr (t @ r)))"

text \<open>\<^verbatim>\<open>if not custom_msg: custom_msg = default\<close>.\<close>

definition default_msg :: "msg_part list option \<Rightarrow> msg_part list \<Rightarrow> msg_part list" where
  "default_msg custom_msg dflt =
     (case custom_msg of None \<Rightarrow> dflt | Some m \<Rightarrow> if m = [] then dflt else m)"

text \<open>
  The state in which nothing has been created yet: no property is bound and the
  counters start at 1.
\<close>

definition blank_expr :: resolved_expression where
  "blank_expr = \<lparr>re_class = OtherExpr [], re_static_type = None, re_result_var = None,
                  re_skippable_refcount = False, re_abstract_expr = None,
                  re_render_pre_called = False, re_location = None\<rparr>"

definition blank_variable :: abstract_variable where
  "blank_variable = \<lparr>av_kind = PlainVariable, av_type = None, av_local_var = None,
                      av_name = None, av_source_name = None, av_construct_cache = [],
                      av_ignored = False, av_location = None\<rparr>"

definition blank_property :: property_def where
  "blank_property = \<lparr>pd_arguments = [], pd_vars = LocalVars_init, pd_dynvar_binding_stack = []\<rparr>"

definition initial_state :: state where
  "initial_state = \<lparr>exprs = (\<lambda>a. blank_expr), exprs_next = 0,
                     variables = (\<lambda>a. blank_variable), variables_next = 0,
                     properties = (\<lambda>a. blank_property),
                     current_properties = [], unused_count = 1, expr_count = 1\<rparr>"

text \<open>
  \<^verbatim>\<open>construct(expr, expected_type_or_pred=None, custom_msg=None, downcast=True)\<close>.
  \<open>T\<close> is the type registry. The diagnostic context entered around the body only
  decorates diagnostics and is not modelled. \<^verbatim>\<open>unsugar(None)\<close> is \<^verbatim>\<open>None\<close>, on
  which the attribute access fails.
\<close>

definition construct ::
  "type_repo \<Rightarrow> (nat \<Rightarrow> nat action) \<Rightarrow> (nat \<Rightarrow> pyval) \<Rightarrow> location \<Rightarrow>
   pyval \<Rightarrow> expected option \<Rightarrow> msg_part list option \<Rightarrow> bool \<Rightarrow> nat action" where
  "construct T methods defer_get here expr expected_type_or_pred custom_msg downcast s =
     (case unsugar defer_get here expr False of
        Inl e \<Rightarrow> (Inl e, s)
      | Inr (PyExpr e) \<Rightarrow>
        (case node_construct methods e s of
           (Inl err, s1) \<Rightarrow> (Inl err, s1)
         | (Inr ret, s1) \<Rightarrow>
           (let s2 = s1\<lparr>exprs := (exprs s1)(ret := (exprs s1 ret)\<lparr>re_location := expr_location s1 e\<rparr>)\<rparr>
            in case expected_type_or_pred of
                 None \<Rightarrow> (Inr ret, s2)
               | Some (ExpectedType expected_type) \<Rightarrow>
                 (let msg = default_msg custom_msg
                              [Text ''Expected type '', Hole_expected, Text '', got '', Hole_expr_type]
                  in case type_of_expr (exprs s2 ret) of
                       Inl err \<Rightarrow> (Inl err, s2)
                     | Inr ret_type \<Rightarrow>
                       (case format_msg msg (Some (camel T expected_type)) (camel T ret_type) of
                          Inl err \<Rightarrow> (Inl err, s2)
                        | Inr text \<Rightarrow>
                          (case check_source_language (matches T ret_type expected_type) text of
                             Inl err \<Rightarrow> (Inl err, s2)
                           | Inr u \<Rightarrow>
                             (if downcast \<and> expected_type \<noteq> ret_type
                              then CastExpr_init ret expected_type s2
                              else (Inr ret, s2)))))
               | Some (ExpectedPred pred) \<Rightarrow>
                 (let msg = default_msg custom_msg
                              [Text ''Evaluating predicate on '', Hole_expr_type, Text '' failed'']
                  in case type_of_expr (exprs s2 ret) of
                       Inl err \<Rightarrow> (Inl err, s2)
                     | Inr ret_type \<Rightarrow>
                       (case format_msg msg None (camel T ret_type) of
                          Inl err \<Rightarrow> (Inl err, s2)
                        | Inr text \<Rightarrow>
                          (case check_source_language (pred ret_type) text of
                             Inl err \<Rightarrow> (Inl err, s2)
                           | Inr u \<Rightarrow> (Inr ret, s2))))))
      | Inr other \<Rightarrow> (Inl (AttributeError ''diagnostic_context''), s))"

text \<open>
  A small type registry and a node-method table used to run the definitions on concrete
  inputs: the integer type is a strict subtype of the declared type 0, and no class
  outside this file is instantiated.
\<close>

definition example_types :: type_repo where
  "example_types = \<lparr>matches = (\<lambda>a b. a = b \<or> (a = long_type \<and> b = DeclaredType 0)),
                     is_refcounted = (\<lambda>t. t = DeclaredType 0), camel = (\<lambda>t. ''T'')\<rparr>"

definition no_methods :: "nat \<Rightarrow> nat action" where
  "no_methods i s = (Inl (NotImplementedError []), s)"

section \<open>Sequences of variable creations\<close>

text \<open>
  \<open>candidate orig i\<close> is the name the naming loop tries at its turn \<open>i\<close>: the
  requested name itself, then the name with the suffix \<open>i\<close>. \<open>table_names s p\<close> are
  the keys of the local-variable table of property \<open>p\<close>.

  A \<open>request\<close> is one call of \<^verbatim>\<open>create\<close> or \<^verbatim>\<open>create_scopeless\<close> on the
  \<^verbatim>\<open>LocalVars\<close> of property \<open>p\<close>; \<open>created_name\<close> is the name of the variable
  the call registers, and \<open>run_requests\<close> makes the calls in order, stopping at the
  first exception, and returns the names registered.
\<close>

definition candidate :: "name \<Rightarrow> nat \<Rightarrow> name" where
  "candidate orig i = (if i = 0 then orig else name_add orig (Name (str_nat i)))"

definition table_names :: "state \<Rightarrow> nat \<Rightarrow> name list" where
  "table_names s p = map fst (local_vars_tbl (pd_vars (properties s p)))"

datatype request = Create name "compiled_type option" | CreateScopeless name "compiled_type option"

fun created_name :: "nat \<Rightarrow> request \<Rightarrow> state \<Rightarrow> name" where
  "created_name p (Create nm ty) s = lv_name (fst (create_scopeless (pd_vars (properties s p)) nm ty))"
| "created_name p (CreateScopeless nm ty) s = lv_name (fst (create_scopeless (pd_vars (properties s p)) nm ty))"

fun do_request :: "nat \<Rightarrow> request \<Rightarrow> unit action" where
  "do_request p (Create nm ty) s =
     (case create p nm ty s of (Inl e, s1) \<Rightarrow> (Inl e, s1) | (Inr r, s1) \<Rightarrow> (Inr (), s1))"
| "do_request p (CreateScopeless nm ty) s =
     (let (lv, lvs) = create_scopeless (pd_vars (properties s p)) nm ty
      in (Inr (), s\<lparr>properties := (properties s)(p := (properties s p)\<lparr>pd_vars := lvs\<rparr>)\<rparr>))"

fun run_requests :: "nat \<Rightarrow> request list \<Rightarrow> state \<Rightarrow> name list \<times> state" where
  "run_requests p [] s = ([], s)"
| "run_requests p (r # rest) s =
     (case do_request p r s of
        (Inl e, s1) \<Rightarrow> ([created_name p r s], s1)
      | (Inr u, s1) \<Rightarrow> (created_name p r s # fst (run_requests p rest s1), snd (run_requests p rest s1)))"

text \<open>The state in which the property at address 0 is bound and nothing is created.\<close>

definition bound_state :: state where
  "bound_state = initial_state\<lparr>current_properties := [Some 0]\<rparr>"

section \<open>Events between two references to a variable\<close>

text \<open>
  What may happen to abstract variables between two calls of \<^verbatim>\<open>construct\<close> on one
  of them: a variable is constructed, a variable's name is rebound (a dynamic-variable
  bind, the creation of its local variable), or its type is (\<^verbatim>\<open>bind_type\<close>,
  \<^verbatim>\<open>set_type\<close>). \<open>run_ops\<close> runs such events in order. \<open>variable_state\<close> is a
  state whose variables are named \<^verbatim>\<open>X\<close> and typed as integers.
\<close>

datatype var_op =
    Op_construct nat
  | Op_set_name nat "name option"
  | Op_set_type nat "compiled_type option"

fun apply_op :: "var_op \<Rightarrow> state \<Rightarrow> state" where
  "apply_op (Op_construct w) s = snd (AbstractVariable_construct w s)"
| "apply_op (Op_set_name w nm) s = s\<lparr>variables := (variables s)(w := (variables s w)\<lparr>av_name := nm\<rparr>)\<rparr>"
| "apply_op (Op_set_type w ty) s = s\<lparr>variables := (variables s)(w := (variables s w)\<lparr>av_type := ty\<rparr>)\<rparr>"

fun run_ops :: "var_op list \<Rightarrow> state \<Rightarrow> state" where
  "run_ops [] s = s"
| "run_ops (op # ops) s = run_ops ops (apply_op op s)"

definition variable_state :: state where
  "variable_state = initial_state\<lparr>variables :=
      (\<lambda>a. blank_variable\<lparr>av_name := Some (Name ''X''), av_type := Some long_type\<rparr>),
      variables_next := 1\<rparr>"

text \<open>
  A state with one dynamic variable, of argument name \<^verbatim>\<open>env\<close>, at address 0, in
  which the property at address 0 is bound and takes no argument.
\<close>

definition dynvar_state :: state where
  "dynvar_state = initial_state\<lparr>
      variables := (\<lambda>a. blank_variable\<lparr>av_kind := DynamicVariable (Name ''Env''),
                                            av_type := Some (DeclaredType 0)\<rparr>),
      variables_next := 1,
      current_properties := [Some 0]\<rparr>"




section \<open>Ignored variables and the unused-binding warning\<close>

text \<open>
  The properties \<^verbatim>\<open>name\<close>, \<^verbatim>\<open>source_name\<close> and \<^verbatim>\<open>ignored\<close> of a
  \<^verbatim>\<open>VariableExpr\<close>.
\<close>

definition VariableExpr_name :: "resolved_expression \<Rightarrow> name option" where
  "VariableExpr_name e = (case re_class e of VariableExpr nm av ig \<Rightarrow> nm | _ \<Rightarrow> None)"

definition VariableExpr_source_name :: "state \<Rightarrow> resolved_expression \<Rightarrow> name option" where
  "VariableExpr_source_name s e =
     (case re_class e of
        VariableExpr nm (Some v) ig \<Rightarrow> av_source_name (variables s v)
      | _ \<Rightarrow> None)"

definition VariableExpr_ignored :: "state \<Rightarrow> resolved_expression \<Rightarrow> bool" where
  "VariableExpr_ignored s e =
     (case re_class e of
        VariableExpr nm av ig \<Rightarrow>
          ig \<or> (case av of Some v \<Rightarrow> AbstractVariable_ignored (variables s v) | None \<Rightarrow> False)
      | _ \<Rightarrow> False)"

text \<open>
  The end of \<^verbatim>\<open>PropertyDef.warn_on_unused_bindings()\<close>. \<open>all_vars\<close> is the dict of
  that name once \<^verbatim>\<open>mark_vars\<close> has walked the constructed expression: each bound
  variable (the address of its \<^verbatim>\<open>VariableExpr\<close>) with whether it is referenced. The
  two lists are filtered from it and sorted by variable name (the order of
  \<^verbatim>\<open>Name\<close> objects, which is outside src/, is taken to be that of their spellings);
  \<open>format_list\<close> gives the lower-case names to print, and the result is the list of
  the warnings that \<^verbatim>\<open>warn_if\<close> emits, one for each list that is not empty.
\<close>

definition name_key :: "resolved_expression \<Rightarrow> string" where
  "name_key e = (case VariableExpr_name e of None \<Rightarrow> [] | Some n \<Rightarrow> base_name n)"

definition unused_vars :: "state \<Rightarrow> (nat \<times> bool) list \<Rightarrow> nat list" where
  "unused_vars s all_vars =
     sort_key (\<lambda>var. name_key (exprs s var))
       (map fst (filter (\<lambda>(var, is_used). \<not> is_used \<and> \<not> VariableExpr_ignored s (exprs s var)) all_vars))"

definition wrongly_used_vars :: "state \<Rightarrow> (nat \<times> bool) list \<Rightarrow> nat list" where
  "wrongly_used_vars s all_vars =
     sort_key (\<lambda>var. name_key (exprs s var))
       (map fst (filter (\<lambda>(var, is_used). is_used \<and> VariableExpr_ignored s (exprs s var)) all_vars))"

fun join :: "string \<Rightarrow> string list \<Rightarrow> string" where
  "join sep [] = []"
| "join sep [x] = x"
| "join sep (x # y # ys) = x @ sep @ join sep (y # ys)"

fun format_list :: "state \<Rightarrow> nat list \<Rightarrow> error + string list" where
  "format_list s [] = Inr []"
| "format_list s (var # vars) =
     (case (case VariableExpr_source_name s (exprs s var) of
              Some n \<Rightarrow> Some n
            | None \<Rightarrow> VariableExpr_name (exprs s var)) of
        None \<Rightarrow> Inl (AttributeError ''lower'')
      | Some n \<Rightarrow> (case format_list s vars of Inl e \<Rightarrow> Inl e | Inr r \<Rightarrow> Inr (lower n # r)))"

definition warn_on_unused_bindings :: "state \<Rightarrow> (nat \<times> bool) list \<Rightarrow> error + string list" where
  "warn_on_unused_bindings s all_vars =
     (case format_list s (unused_vars s all_vars) of
        Inl e \<Rightarrow> Inl e
      | Inr unused \<Rightarrow>
        (let w1 = (if unused_vars s all_vars \<noteq> []
                   then [''The following bindings are not used: '' @ join '', '' unused] else [])
         in case format_list s (wrongly_used_vars s all_vars) of
              Inl e \<Rightarrow> Inl e
            | Inr wrong \<Rightarrow>
              Inr (w1 @ (if wrongly_used_vars s all_vars \<noteq> []
                         then [''The following bindings are used even though they are supposed to be ignored: ''
                               @ join '', '' wrong]
                         else []))))"

text \<open>
  The creation of the variable of one argument \<^verbatim>\<open>arg\<close> of the function of a
  \<^verbatim>\<open>Let\<close> expression, as \<^verbatim>\<open>Let.do_prepare\<close> does it:
  \<^verbatim>\<open>AbstractVariable(names.Name.from_lower(arg), create_local=True,
  source_name=names.Name.from_lower(arg))\<close>, with no type. \<open>new_underscore\<close> is that
  creation for an argument that the language specification names \<^verbatim>\<open>_\<close>.
  \<open>clash_state\<close> is the state in which the property at address 0 is bound and a
  \<^verbatim>\<open>Let\<close> expression has created the variable of its argument \<^verbatim>\<open>unused_1\<close>.
\<close>

definition Let_variable :: "location \<Rightarrow> string \<Rightarrow> nat action" where
  "Let_variable here arg =
     AbstractVariable_init PlainVariable here (Some (from_lower arg)) None True (Some (from_lower arg))"

definition new_underscore :: "nat action" where
  "new_underscore = Let_variable None ''_''"

definition clash_state :: state where
  "clash_state = snd (Let_variable None ''unused_1'' bound_state)"

section \<open>Managed blocks\<close>

text \<open>
  Two managed blocks: one that raises a diagnostic at once, as a failed type check of
  \<^verbatim>\<open>construct\<close> does, and one that does nothing.
\<close>

definition failing_block :: "unit action" where
  "failing_block s = (Inl (DiagnosticError ''Expected type T, got T''), s)"

definition empty_block :: "unit action" where
  "empty_block s = (Inr (), s)"

text \<open>
  \<^verbatim>\<open>with nested(m1, m2, ...): body\<close>, as \<^verbatim>\<open>construct_and_type_expression\<close> enters
  \<^verbatim>\<open>self.bind()\<close>, \<^verbatim>\<open>Self.bind_type(self.struct)\<close> and the default bindings of the
  dynamic variables around the construction of the property's expression: the managers
  are entered in order and left in reverse order.
\<close>

fun nested :: "('a action \<Rightarrow> 'a action) list \<Rightarrow> 'a action \<Rightarrow> 'a action" where
  "nested [] body = body"
| "nested (m # ms) body = m (nested ms body)"

section \<open>Rendering\<close>

text \<open>
  What \<^verbatim>\<open>render_pre\<close> takes from outside this file: the methods \<^verbatim>\<open>_render_pre\<close>
  and \<^verbatim>\<open>_render_expr\<close> of the node at an address (each subclass has its own),
  \<^verbatim>\<open>gdb_helper\<close> of \<^verbatim>\<open>langkit.compiled_types\<close> and \<^verbatim>\<open>str()\<close> of a name.
\<close>

record renderer =
  render_pre_impl :: "nat \<Rightarrow> string action"
  render_expr_impl :: "nat \<Rightarrow> state \<Rightarrow> error + string"
  gdb_helper :: "string list \<Rightarrow> string"
  name_str :: "name \<Rightarrow> string"

text \<open>
  The asserted condition of \<^verbatim>\<open>render_pre\<close>:
  \<^verbatim>\<open>skippable_refcount or type is no_compiled_type or not type.is_refcounted or _result_var\<close>,
  evaluated from left to right; the type is not read for a skippable node.
\<close>

definition refcount_condition :: "type_repo \<Rightarrow> resolved_expression \<Rightarrow> error + bool" where
  "refcount_condition T obj =
     (if re_skippable_refcount obj then Inr True
      else case type_of_expr obj of
             Inl e \<Rightarrow> Inl e
           | Inr t \<Rightarrow> Inr (t = no_compiled_type \<or> \<not> is_refcounted T t \<or> re_result_var obj \<noteq> None))"

definition is_VariableExpr :: "resolved_expression \<Rightarrow> bool" where
  "is_VariableExpr obj = (case re_class obj of VariableExpr nm av ig \<Rightarrow> True | _ \<Rightarrow> False)"

definition loc_str :: "abstract_expression \<Rightarrow> state \<Rightarrow> string" where
  "loc_str a s =
     (case expr_location s a of
        None \<Rightarrow> ''None''
      | Some (file, line) \<Rightarrow> file @ '':'' @ str_nat line)"

text \<open>
  \<^verbatim>\<open>ResolvedExpression.render_pre()\<close> for the node at address \<open>e\<close>. The
  \<^verbatim>\<open>result_var\<close> property is \<^verbatim>\<open>_result_var\<close>, as in the base class.
\<close>

definition render_pre :: "type_repo \<Rightarrow> renderer \<Rightarrow> nat \<Rightarrow> string action" where
  "render_pre T R e s =
     (if re_render_pre_called (exprs s e)
      then (Inl (AssertionError ''render_pre can be called only once''), s)
      else
        (let s1 = s\<lparr>exprs := (exprs s)(e :=
                     (exprs s e)\<lparr>re_render_pre_called := \<not> is_VariableExpr (exprs s e)\<rparr>)\<rparr>
         in case refcount_condition T (exprs s1 e) of
              Inl err \<Rightarrow> (Inl err, s1)
            | Inr ok \<Rightarrow>
              (if \<not> ok
               then (Inl (AssertionError
                       ''ResolvedExpression instances that return ref-counted values must store their result in a local variable''),
                     s1)
               else
                 (case render_pre_impl R e s1 of
                    (Inl err, s2) \<Rightarrow> (Inl err, s2)
                  | (Inr pre, s2) \<Rightarrow>
                    (case render_expr_impl R e s2 of
                       Inl err \<Rightarrow> (Inl err, s2)
                     | Inr expr \<Rightarrow>
                       (let result =
                              (case re_result_var (exprs s2 e) of
                                 None \<Rightarrow> pre
                               | Some (p, nm) \<Rightarrow>
                                 (if expr \<noteq> name_str R nm
                                  then pre @ [CHR 0x0A] @ base_name nm @ '' := '' @ expr @ '';''
                                  else pre))
                        in case (re_abstract_expr (exprs s2 e), re_result_var (exprs s2 e)) of
                             (Some a, Some (p, nm)) \<Rightarrow>
                               (let unique_id = str_nat (expr_count s2);
                                    s3 = s2\<lparr>expr_count := expr_count s2 + 1\<rparr>
                                in (Inr (gdb_helper R [''expr-start'', unique_id, expr_repr a,
                                                       base_name nm, loc_str a s3]
                                         @ [CHR 0x0A] @ result @ [CHR 0x0A]
                                         @ gdb_helper R [''expr-done'', unique_id]),
                                    s3))
                           | _ \<Rightarrow> (Inr result, s2)))))))"

text \<open>
  A renderer for literal nodes, and the state in which one integer literal has been
  constructed.
\<close>

definition literal_renderer :: renderer where
  "literal_renderer =
     \<lparr>render_pre_impl = (\<lambda>e s. (Inr [], s)),
      render_expr_impl = (\<lambda>e s. case re_class (exprs s e) of
                                   LiteralExpr template operands \<Rightarrow> Inr template
                                 | _ \<Rightarrow> Inl (NotImplementedError [])),
      gdb_helper = (\<lambda>args. []),
      name_str = base_name\<rparr>"

definition literal_state :: state where
  "literal_state = snd (LiteralExpr_init ''1'' (Some long_type) [] initial_state)"

section \<open>Frozable objects\<close>

text \<open>
  The abstract expressions, as \<^verbatim>\<open>Frozable\<close> objects in a store indexed by address.
  \<open>fr_frozen\<close> is \<^verbatim>\<open>__dict__.get('_frozen', False)\<close>; \<open>fr_attrs\<close> are the other
  entries of \<^verbatim>\<open>__dict__\<close>, whose value is a \<^verbatim>\<open>Frozable\<close> instance (by its address)
  or anything else (a list of expressions included, which \<^verbatim>\<open>trigger_freeze\<close> does
  not enter).
\<close>

datatype attr_value = Frozable_ref nat | Other_value

record frozable =
  fr_class :: string
  fr_frozen :: bool
  fr_attrs :: "(string \<times> attr_value) list"

text \<open>
  The values of \<^verbatim>\<open>__dict__\<close> that are \<^verbatim>\<open>Frozable\<close> instances, in the order of
  iteration.
\<close>

fun frozable_values :: "(string \<times> attr_value) list \<Rightarrow> nat list" where
  "frozable_values [] = []"
| "frozable_values ((k, Frozable_ref r) # rest) = r # frozable_values rest"
| "frozable_values ((k, Other_value) # rest) = frozable_values rest"

text \<open>
  \<^verbatim>\<open>freeze()\<close> called on each of a list of objects in turn. The recursion of
  \<^verbatim>\<open>trigger_freeze\<close> through \<^verbatim>\<open>val.freeze()\<close> is written with its call stack
  explicit: the list holds the objects on which \<^verbatim>\<open>freeze()\<close> remains to be called,
  those of the innermost loop first. An object that is already frozen is skipped (the
  early return); otherwise it is marked and the \<^verbatim>\<open>Frozable\<close> values of its
  \<^verbatim>\<open>__dict__\<close> are visited before the rest. It terminates, also on cyclic graphs,
  because every turn either freezes one object of \<open>unfrozen h\<close> or shortens the list.
\<close>

definition unfrozen :: "frozable list \<Rightarrow> nat set" where
  "unfrozen h = {r. r < length h \<and> \<not> fr_frozen (h ! r)}"

function freeze_pending :: "frozable list \<Rightarrow> nat list \<Rightarrow> frozable list" where
  "freeze_pending h [] = h"
| "freeze_pending h (r # rest) =
     (if r < length h \<and> \<not> fr_frozen (h ! r)
      then freeze_pending (h[r := (h ! r)\<lparr>fr_frozen := True\<rparr>])
             (frozable_values (fr_attrs (h ! r)) @ rest)
      else freeze_pending h rest)"
  by pat_completeness auto

text \<open>
  \<^verbatim>\<open>Frozable.trigger_freeze(value=True)\<close>, \<^verbatim>\<open>freeze()\<close> and \<^verbatim>\<open>unfreeze()\<close> on the
  object at address \<open>self\<close>. An address outside the store denotes no object and
  leaves the store as it is.
\<close>

definition trigger_freeze :: "frozable list \<Rightarrow> nat \<Rightarrow> bool \<Rightarrow> frozable list" where
  "trigger_freeze h self val =
     (if \<not> self < length h then h
      else if fr_frozen (h ! self) \<and> val then h
      else freeze_pending (h[self := (h ! self)\<lparr>fr_frozen := val\<rparr>])
             (frozable_values (fr_attrs (h ! self))))"

definition freeze :: "frozable list \<Rightarrow> nat \<Rightarrow> frozable list" where
  "freeze h self = trigger_freeze h self True"

definition unfreeze :: "frozable list \<Rightarrow> nat \<Rightarrow> frozable list" where
  "unfreeze h self = trigger_freeze h self False"

datatype sugar =
    Getattr string
  | Or_sugar | And_sugar
  | Lt_sugar | Le_sugar | Gt_sugar | Ge_sugar | Eq_sugar
  | Sub_sugar | Add_sugar

fun func_name :: "sugar \<Rightarrow> string" where
  "func_name (Getattr attr) = ''__getattr__''"
| "func_name Or_sugar = ''__or__''"
| "func_name And_sugar = ''__and__''"
| "func_name Lt_sugar = ''__lt__''"
| "func_name Le_sugar = ''__le__''"
| "func_name Gt_sugar = ''__gt__''"
| "func_name Ge_sugar = ''__ge__''"
| "func_name Eq_sugar = ''__eq__''"
| "func_name Sub_sugar = ''__sub__''"
| "func_name Add_sugar = ''__add__''"

text \<open>
  A method of an object of the store: it takes the store and \<^verbatim>\<open>self\<close> and returns
  the address of its result or raises. \<^verbatim>\<open>Frozable.protect(func)\<close> wraps a method:
  \<open>fname\<close> is \<^verbatim>\<open>func.__name__\<close> and \<open>args\<close> the positional arguments as text.
\<close>

type_synonym bound_method = "frozable list \<Rightarrow> nat \<Rightarrow> (error + nat) \<times> frozable list"

definition protect :: "string \<Rightarrow> string list \<Rightarrow> bound_method \<Rightarrow> bound_method" where
  "protect fname args func h self =
     (if fr_frozen (h ! self)
      then (if fname = ''__getattr__''
            then (case args of
                    [] \<Rightarrow> (Inl (IndexError ''tuple index out of range''), h)
                  | a # rest \<Rightarrow> (Inl (PyException (''Illegal field access: '' @ a)), h))
            else (Inl (PyException ('' Illegal method call: '' @ fname)), h))
      else func h self)"

text \<open>
  The bodies of the operator methods create a node from \<^verbatim>\<open>self\<close> and the other
  operand: \<^verbatim>\<open>Arithmetic(self, other, op)\<close> of this file, and
  \<^verbatim>\<open>BinaryBooleanOperator\<close>, \<^verbatim>\<open>OrderingTest\<close> and \<^verbatim>\<open>Eq\<close> of
  \<^verbatim>\<open>langkit.expressions.boolean\<close> (not under src/; their attributes are named here
  \<^verbatim>\<open>kind\<close>, \<^verbatim>\<open>lhs\<close>, \<^verbatim>\<open>rhs\<close>). A new node is not frozen and has the
  \<^verbatim>\<open>location\<close> set by \<^verbatim>\<open>AbstractExpression.__init__\<close>.
\<close>

definition new_node :: "string \<Rightarrow> (string \<times> attr_value) list \<Rightarrow> frozable list \<Rightarrow> (error + nat) \<times> frozable list" where
  "new_node cls attrs h =
     (Inr (length h),
      h @ [\<lparr>fr_class = cls, fr_frozen = False, fr_attrs = (''location'', Other_value) # attrs\<rparr>])"

definition binary_node :: "string \<Rightarrow> attr_value \<Rightarrow> bound_method" where
  "binary_node cls other h self =
     new_node cls [(''kind'', Other_value), (''lhs'', Frozable_ref self), (''rhs'', other)] h"

definition Arithmetic_new :: "attr_value \<Rightarrow> string \<Rightarrow> bound_method" where
  "Arithmetic_new other op h self =
     new_node ''Arithmetic'' [(''l'', Frozable_ref self), (''r'', other), (''op'', Other_value)] h"

text \<open>
  The ten protected methods of \<^verbatim>\<open>AbstractExpression\<close>. The body of
  \<^verbatim>\<open>__getattr__\<close> (the table of registered attributes, the composed attributes and
  the field-access fallback) is the parameter \<open>getattr_impl\<close>.
\<close>

fun invoke :: "(string \<Rightarrow> bound_method) \<Rightarrow> sugar \<Rightarrow> attr_value \<Rightarrow> bound_method" where
  "invoke getattr_impl (Getattr attr) other = protect ''__getattr__'' [attr] (getattr_impl attr)"
| "invoke getattr_impl Or_sugar other = protect ''__or__'' [] (binary_node ''BinaryBooleanOperator'' other)"
| "invoke getattr_impl And_sugar other = protect ''__and__'' [] (binary_node ''BinaryBooleanOperator'' other)"
| "invoke getattr_impl Lt_sugar other = protect ''__lt__'' [] (binary_node ''OrderingTest'' other)"
| "invoke getattr_impl Le_sugar other = protect ''__le__'' [] (binary_node ''OrderingTest'' other)"
| "invoke getattr_impl Gt_sugar other = protect ''__gt__'' [] (binary_node ''OrderingTest'' other)"
| "invoke getattr_impl Ge_sugar other = protect ''__ge__'' [] (binary_node ''OrderingTest'' other)"
| "invoke getattr_impl Eq_sugar other = protect ''__eq__'' [] (binary_node ''Eq'' other)"
| "invoke getattr_impl Sub_sugar other = protect ''__sub__'' [] (Arithmetic_new other ''-'')"
| "invoke getattr_impl Add_sugar other = protect ''__add__'' [] (Arithmetic_new other ''+'')"

text \<open>The exception a protected method raises on a frozen object.\<close>

fun illegal_access :: "sugar \<Rightarrow> error" where
  "illegal_access (Getattr attr) = PyException (''Illegal field access: '' @ attr)"
| "illegal_access op = PyException ('' Illegal method call: '' @ func_name op)"

text \<open>
  \<open>closed h p\<close>: every \<^verbatim>\<open>Frozable\<close> attribute value of a frozen object is frozen
  or is in the list \<open>p\<close>.
\<close>

definition closed :: "frozable list \<Rightarrow> nat list \<Rightarrow> bool" where
  "closed h p =
     (\<forall>obj < length h. fr_frozen (h ! obj) \<longrightarrow>
        (\<forall>c \<in> set (frozable_values (fr_attrs (h ! obj))).
            c < length h \<longrightarrow> fr_frozen (h ! c) \<or> c \<in> set p))"

text \<open>Two expressions that refer to each other, and a \<^verbatim>\<open>__getattr__\<close> body.\<close>

definition example_heap :: "frozable list" where
  "example_heap =
     [\<lparr>fr_class = ''Arithmetic'', fr_frozen = False,
       fr_attrs = [(''location'', Other_value), (''l'', Frozable_ref 1), (''r'', Other_value)]\<rparr>,
      \<lparr>fr_class = ''FieldAccess'', fr_frozen = False,
       fr_attrs = [(''location'', Other_value), (''receiver'', Frozable_ref 0)]\<rparr>]"

definition no_getattr :: "string \<Rightarrow> bound_method" where
  "no_getattr attr h self = new_node ''FieldAccess'' [(''receiver'', Frozable_ref self)] h"

section \<open>Termination of the naming loop\<close>

lemma of_char_digit_char: "d < 10 \<Longrightarrow> (of_char (digit_char d) :: nat) = 48 + d"
  by (simp add: digit_char_def)

lemma nat_of_str_snoc: "nat_of_str (s @ [c]) = 10 * nat_of_str s + (of_char c - 48)"
  by (simp add: nat_of_str_def)

lemma nat_of_str_str_nat: "nat_of_str (str_nat n) = n"
proof (induction n rule: str_nat.induct)
  case (1 n)
  show ?case
  proof (cases "n < 10")
    case True
    then show ?thesis
      by (subst str_nat.simps) (simp add: nat_of_str_def of_char_digit_char)
  next
    case False
    then have "nat_of_str (str_nat n) = 10 * nat_of_str (str_nat (n div 10)) + (of_char (digit_char (n mod 10)) - 48)"
      by (subst str_nat.simps) (simp add: nat_of_str_snoc)
    also have "\<dots> = 10 * (n div 10) + n mod 10"
      using 1 False by (simp add: of_char_digit_char)
    finally show ?thesis by simp
  qed
qed

lemma str_nat_inj: "str_nat m = str_nat n \<Longrightarrow> m = n"
  by (metis nat_of_str_str_nat)

lemma suffixed_inj: "name_add orig (Name (str_nat m)) = name_add orig (Name (str_nat n)) \<Longrightarrow> m = n"
  by (simp add: name_add_def str_nat_inj)

lemma finite_suffixed: "finite {j. name_add orig (Name (str_nat j)) \<in> fst ` set tbl}"
proof -
  have "inj (\<lambda>j. name_add orig (Name (str_nat j)))"
    by (rule injI) (rule suffixed_inj)
  then have "finite ((\<lambda>j. name_add orig (Name (str_nat j))) -` (fst ` set tbl))"
    by (intro finite_vimageI) simp_all
  then show ?thesis by (simp add: vimage_def)
qed

lemma finite_pending: "finite (pending tbl orig i)"
  unfolding pending_def using finite_suffixed [of orig tbl] by (rule rev_finite_subset) auto

lemma pending_step:
  assumes "name_add orig (Name (str_nat (Suc i))) \<in> fst ` set tbl"
  shows "card (pending tbl orig (Suc i)) < card (pending tbl orig i)"
proof (rule psubset_card_mono [OF finite_pending])
  show "pending tbl orig (Suc i) \<subset> pending tbl orig i"
    using assms unfolding pending_def by (auto simp: Suc_lessD)
qed

termination unique_name
proof (relation "measure (\<lambda>(tbl, orig, i, nm). if nm \<in> fst ` set tbl then Suc (card (pending tbl orig i)) else 0)")
  show "wf (measure (\<lambda>(tbl, orig, i, nm). if nm \<in> fst ` set tbl then Suc (card (pending tbl orig i)) else 0))"
    by simp
next
  fix tbl :: "(name \<times> local_var) list" and orig_name i nm
  assume "nm \<in> fst ` set tbl"
  then show "((tbl, orig_name, i + 1, name_add orig_name (Name (str_nat (i + 1)))), (tbl, orig_name, i, nm))
     \<in> measure (\<lambda>(tbl, orig, i, nm). if nm \<in> fst ` set tbl then Suc (card (pending tbl orig i)) else 0)"
    using pending_step [of orig_name i tbl] by simp
qed

declare unique_name.simps [simp del]

section \<open>Properties of unsugar\<close>

text \<open>
  C9. \<^verbatim>\<open>unsugar(None)\<close> returns \<^verbatim>\<open>None\<close> for both values of \<^verbatim>\<open>ignore_errors\<close>:
  the value is neither wrapped into a literal node nor rejected with the
  "Invalid abstract expression" diagnostic, which any other value that is neither an
  expression nor a literal gets when errors are not ignored.
\<close>

theorem unsugar_None:
  "unsugar defer_get here PyNone True = Inr PyNone
   \<and> unsugar defer_get here PyNone False = Inr PyNone
   \<and> unsugar defer_get here (PyObject s) False
       = Inl (DiagnosticError (''Invalid abstract expression: '' @ s))"
  by (simp add: unsugar_def check_source_language_def)

section \<open>Properties of construct\<close>

lemma construct_bool_literal:
  "construct T methods defer_get here (PyBool b) None None downcast s
     = (Inr (exprs_next s),
        s\<lparr>exprs := (exprs s)(exprs_next s :=
              \<lparr>re_class = LiteralExpr (if b then ''True'' else ''False'') [],
               re_static_type = Some bool_type, re_result_var = None,
               re_skippable_refcount = True, re_abstract_expr = None,
               re_render_pre_called = False, re_location = here\<rparr>),
           exprs_next := exprs_next s + 1\<rparr>)"
  by (simp add: construct_def unsugar_def check_source_language_def node_construct_def
        Literal_construct_def issubclass_def LiteralExpr_init_def ResolvedExpression_init_def
        expr_location_def Let_def)

lemma construct_int_literal:
  "construct T methods defer_get here (PyInt w) None None downcast s
     = (Inr (exprs_next s),
        s\<lparr>exprs := (exprs s)(exprs_next s :=
              \<lparr>re_class = LiteralExpr (str_int (sint w)) [],
               re_static_type = Some long_type, re_result_var = None,
               re_skippable_refcount = True, re_abstract_expr = None,
               re_render_pre_called = False, re_location = here\<rparr>),
           exprs_next := exprs_next s + 1\<rparr>)"
  by (simp add: construct_def unsugar_def check_source_language_def node_construct_def
        Literal_construct_def issubclass_def LiteralExpr_init_def ResolvedExpression_init_def
        expr_location_def Let_def)

lemma construct_long_literal:
  "construct T methods defer_get here (PyLong i) None None downcast s
        = (Inl (DiagnosticError (''Invalid abstract expression: '' @ str_int i)), s)"
  by (simp add: construct_def unsugar_def check_source_language_def)

lemma swapped_table:
  "dispatch_on_type (py_type (PyBool b))
         [(Class_int, long_type), (Class_bool, bool_type)] exc = Inr long_type"
  by (simp add: issubclass_def)

lemma digit_chars:
  "digit_char 0 = CHR ''0''" "digit_char 1 = CHR ''1''" "digit_char 2 = CHR ''2''"
  "digit_char 3 = CHR ''3''" "digit_char 4 = CHR ''4''" "digit_char 5 = CHR ''5''"
  "digit_char 6 = CHR ''6''" "digit_char 7 = CHR ''7''" "digit_char 8 = CHR ''8''"
  "digit_char 9 = CHR ''9''"
  by code_simp+

lemma str_nat_numeral:
  "str_nat (numeral k) = (if (numeral k :: nat) < 10 then [digit_char (numeral k)]
      else str_nat (numeral k div 10) @ [digit_char (numeral k mod 10)])"
  by (rule str_nat.simps)

lemma in_range_sint:
  "- sys_maxint - 1 \<le> i \<and> i \<le> sys_maxint \<Longrightarrow> sint (word_of_int i :: 64 word) = i"
  by (simp add: sys_maxint_def sint_sbintrunc' signed_take_bit_int_eq_self)

lemma sint_in_range:
  "- sys_maxint - 1 \<le> sint (w :: 64 word) \<and> sint w \<le> sys_maxint"
  using sint_ge [of w] sint_lt [of w] by (simp add: sys_maxint_def)

lemma py_integer_sint: "py_integer (sint (w :: 64 word)) = PyInt w"
  using sint_in_range [of w] by (simp add: py_integer_def)

text \<open>
  C5, as the code has it. For the raw literals \<^verbatim>\<open>True\<close> and \<^verbatim>\<open>False\<close>, \<^verbatim>\<open>construct\<close> returns a
  new \<^verbatim>\<open>LiteralExpr\<close> whose type is exactly the boolean type. For every instance
  of \<^verbatim>\<open>int\<close>, that is for every integer \<open>i\<close> from \<^verbatim>\<open>-sys.maxint - 1\<close> to
  \<^verbatim>\<open>sys.maxint\<close>, it returns a new \<^verbatim>\<open>LiteralExpr\<close> whose type is exactly the
  integer type. An integer outside that range is a \<^verbatim>\<open>long\<close>, and a \<^verbatim>\<open>long\<close> of
  any value is not an instance of \<^verbatim>\<open>int\<close>: \<^verbatim>\<open>construct\<close> rejects it with the
  "Invalid abstract expression" diagnostic and creates nothing. The boolean entry of
  the dispatch table is tried first: with the entries swapped, a boolean, being an
  instance of \<^verbatim>\<open>int\<close>, would be given the integer type.
\<close>

theorem literal_types:
  "construct T methods defer_get here (PyBool b) None None downcast s
     = (Inr (exprs_next s),
        s\<lparr>exprs := (exprs s)(exprs_next s :=
              \<lparr>re_class = LiteralExpr (if b then ''True'' else ''False'') [],
               re_static_type = Some bool_type, re_result_var = None,
               re_skippable_refcount = True, re_abstract_expr = None,
               re_render_pre_called = False, re_location = here\<rparr>),
           exprs_next := exprs_next s + 1\<rparr>)
   \<and> construct T methods defer_get here (PyInt w) None None downcast s
     = (Inr (exprs_next s),
        s\<lparr>exprs := (exprs s)(exprs_next s :=
              \<lparr>re_class = LiteralExpr (str_int (sint w)) [],
               re_static_type = Some long_type, re_result_var = None,
               re_skippable_refcount = True, re_abstract_expr = None,
               re_render_pre_called = False, re_location = here\<rparr>),
           exprs_next := exprs_next s + 1\<rparr>)
   \<and> py_integer (sint w) = PyInt w
   \<and> (- sys_maxint - 1 \<le> i \<and> i \<le> sys_maxint \<longrightarrow>
        construct T methods defer_get here (py_integer i) None None downcast s
        = (Inr (exprs_next s),
           s\<lparr>exprs := (exprs s)(exprs_next s :=
                 \<lparr>re_class = LiteralExpr (str_int i) [],
                  re_static_type = Some long_type, re_result_var = None,
                  re_skippable_refcount = True, re_abstract_expr = None,
                  re_render_pre_called = False, re_location = here\<rparr>),
              exprs_next := exprs_next s + 1\<rparr>))
   \<and> (\<not> (- sys_maxint - 1 \<le> i \<and> i \<le> sys_maxint) \<longrightarrow>
        construct T methods defer_get here (py_integer i) None None downcast s
        = (Inl (DiagnosticError (''Invalid abstract expression: '' @ str_int i)), s))
   \<and> construct T methods defer_get here (PyLong i) None None downcast s
        = (Inl (DiagnosticError (''Invalid abstract expression: '' @ str_int i)), s)
   \<and> dispatch_on_type (py_type (PyBool b))
         [(Class_int, long_type), (Class_bool, bool_type)] exc = Inr long_type"
proof -
  have a: "py_integer i = PyInt (word_of_int i)" if "- sys_maxint - 1 \<le> i \<and> i \<le> sys_maxint"
    using that by (simp add: py_integer_def)
  have b: "py_integer i = PyLong i" if "\<not> (- sys_maxint - 1 \<le> i \<and> i \<le> sys_maxint)"
    using that by (simp add: py_integer_def)
  show ?thesis
    apply (intro conjI impI)
    subgoal by (rule construct_bool_literal)
    subgoal by (rule construct_int_literal)
    subgoal by (rule py_integer_sint)
    subgoal premises h unfolding a [OF h] construct_int_literal in_range_sint [OF h] by (rule refl)
    subgoal premises h unfolding b [OF h] by (rule construct_long_literal)
    subgoal by (rule construct_long_literal)
    subgoal by (rule swapped_table)
    done
qed

theorem literal_types_witness:
  "- sys_maxint - 1 \<le> 5 \<and> 5 \<le> sys_maxint
   \<and> \<not> (- sys_maxint - 1 \<le> - (2 ^ 63) - 1 \<and> - (2 ^ 63) - 1 \<le> sys_maxint)
   \<and> fst (construct example_types no_methods (\<lambda>d. PyNone) None (py_integer 5)
            None None True initial_state) = Inr 0
   \<and> re_class (exprs (snd (construct example_types no_methods (\<lambda>d. PyNone) None
            (py_integer 5) None None True initial_state)) 0) = LiteralExpr ''5'' []
   \<and> re_static_type (exprs (snd (construct example_types no_methods (\<lambda>d. PyNone) None
            (py_integer 5) None None True initial_state)) 0) = Some long_type
   \<and> (\<exists>m. construct example_types no_methods (\<lambda>d. PyNone) None
            (py_integer (- (2 ^ 63) - 1)) None None True initial_state
          = (Inl (DiagnosticError m), initial_state))"
proof -
  have five: "str_int 5 = ''5''" by code_simp
  have r: "- sys_maxint - 1 \<le> 5 \<and> 5 \<le> sys_maxint" by (simp add: sys_maxint_def)
  have n: "\<not> (- sys_maxint - 1 \<le> - (2 ^ 63) - 1 \<and> - (2 ^ 63) - 1 \<le> sys_maxint)"
    by (simp add: sys_maxint_def)
  note th = literal_types [of example_types no_methods "\<lambda>d. PyNone" None True True initial_state]
  note a = th [of _ 5, THEN conjunct2, THEN conjunct2, THEN conjunct2, THEN conjunct1,
      rule_format, OF r]
  note b = th [of _ "- (2 ^ 63) - 1", THEN conjunct2, THEN conjunct2, THEN conjunct2, THEN conjunct2,
      THEN conjunct1, rule_format, OF n]
  have c: "\<exists>m. construct example_types no_methods (\<lambda>d. PyNone) None
            (py_integer (- (2 ^ 63) - 1)) None None True initial_state
          = (Inl (DiagnosticError m), initial_state)"
    unfolding b by blast
  show ?thesis
    using r n c unfolding a by (simp add: initial_state_def five)
qed

text \<open>
  C5 as stated, for any integer, fails: the integer \<open>2 ^ 63\<close>, which is
  \<^verbatim>\<open>sys.maxint + 1\<close>, is a \<^verbatim>\<open>long\<close>; the test
  \<^verbatim>\<open>isinstance(expr, (bool, int))\<close> of \<^verbatim>\<open>unsugar\<close> is false for it, no
  \<^verbatim>\<open>Literal\<close> is made and \<^verbatim>\<open>construct\<close> raises the diagnostic.
\<close>

theorem long_integer_rejected:
  "sys_maxint + 1 = 2 ^ 63
   \<and> construct example_types no_methods (\<lambda>d. PyNone) None (py_integer (2 ^ 63))
        None None True initial_state
      = (Inl (DiagnosticError ''Invalid abstract expression: 9223372036854775808''), initial_state)"
proof -
  have t: "str_int 9223372036854775808 = ''9223372036854775808''"
    by (simp add: str_int_def str_nat_numeral digit_chars)
  have p: "py_integer (2 ^ 63) = PyLong 9223372036854775808"
    by (simp add: py_integer_def sys_maxint_def)
  have m: "sys_maxint + 1 = 2 ^ 63" by (simp add: sys_maxint_def)
  show ?thesis
    unfolding p using m by (simp add: construct_long_literal t)
qed

text \<open>
  C1. Take an abstract expression \<open>e\<close> and an expected type \<open>Ty\<close>. When the node's own
  \<^verbatim>\<open>construct\<close> method returns the node \<open>ret\<close> of type \<open>rt\<close>, then
  \<^verbatim>\<open>construct(e, Ty)\<close> fails with the diagnostic made from the message template when
  \<open>rt\<close> does not match \<open>Ty\<close>; when \<open>rt\<close> matches \<open>Ty\<close>, differs from it and
  \<^verbatim>\<open>downcast\<close> is true, it returns one new \<open>CastExpr\<close> node around \<open>ret\<close>, of type
  \<open>Ty\<close>, and allocates nothing else; otherwise (\<^verbatim>\<open>downcast\<close> false, or \<open>rt = Ty\<close>)
  it returns the very object \<open>ret\<close> and allocates nothing. In all cases the location of
  the expression is recorded on \<open>ret\<close>. Conversely, whenever \<^verbatim>\<open>construct(e, Ty)\<close>
  succeeds, the node's own result has a type that matches \<open>Ty\<close>.
\<close>

theorem construct_expected_type:
  "(\<forall>ret s1 rt text.
      node_construct methods e s = (Inr ret, s1)
      \<and> re_static_type (exprs s1 ret) = Some rt
      \<and> format_msg (default_msg custom_msg
            [Text ''Expected type '', Hole_expected, Text '', got '', Hole_expr_type])
            (Some (camel T Ty)) (camel T rt) = Inr text
      \<longrightarrow> construct T methods defer_get here (PyExpr e) (Some (ExpectedType Ty)) custom_msg downcast s
          = (let s2 = s1\<lparr>exprs := (exprs s1)(ret := (exprs s1 ret)\<lparr>re_location := expr_location s1 e\<rparr>)\<rparr>
             in if \<not> matches T rt Ty then (Inl (DiagnosticError text), s2)
                else if downcast \<and> Ty \<noteq> rt
                then (Inr (exprs_next s1),
                      s2\<lparr>exprs := (exprs s2)(exprs_next s1 :=
                            \<lparr>re_class = CastExpr ret Ty, re_static_type = Some Ty,
                             re_result_var = None, re_skippable_refcount = False,
                             re_abstract_expr = None, re_render_pre_called = False,
                             re_location = None\<rparr>),
                          exprs_next := exprs_next s1 + 1\<rparr>)
                else (Inr ret, s2)))
   \<and> (\<forall>r s'.
        construct T methods defer_get here (PyExpr e) (Some (ExpectedType Ty)) custom_msg downcast s = (Inr r, s')
        \<longrightarrow> (\<exists>ret s1 rt. node_construct methods e s = (Inr ret, s1)
               \<and> re_static_type (exprs s1 ret) = Some rt \<and> matches T rt Ty))"
  apply (rule conjI)
   apply (auto simp add: construct_def unsugar_def check_source_language_def type_of_expr_def
      CastExpr_init_def ResolvedExpression_init_def Let_def)[1]
  apply (auto simp add: construct_def unsugar_def check_source_language_def type_of_expr_def
      CastExpr_init_def ResolvedExpression_init_def Let_def
      split: prod.splits sum.splits option.splits if_splits)
  done

theorem construct_expected_type_witness:
  "fst (construct example_types no_methods (\<lambda>d. PyNone) None (PyExpr (Literal (PyInt 1) None))
      (Some (ExpectedType (DeclaredType 0))) None True initial_state) = Inr 1
   \<and> re_class (exprs (snd (construct example_types no_methods (\<lambda>d. PyNone) None
        (PyExpr (Literal (PyInt 1) None))
        (Some (ExpectedType (DeclaredType 0))) None True initial_state)) 1) = CastExpr 0 (DeclaredType 0)
   \<and> fst (construct example_types no_methods (\<lambda>d. PyNone) None (PyExpr (Literal (PyInt 1) None))
      (Some (ExpectedType (DeclaredType 0))) None False initial_state) = Inr 0
   \<and> fst (construct example_types no_methods (\<lambda>d. PyNone) None (PyExpr (Literal (PyInt 1) None))
      (Some (ExpectedType bool_type)) None True initial_state)
       = Inl (DiagnosticError ''Expected type T, got T'')"
proof -
  let ?e = "Literal (PyInt 1) None"
  let ?s1 = "snd (node_construct no_methods ?e initial_state)"
  have nc: "node_construct no_methods ?e initial_state = (Inr 0, ?s1)"
    by (simp add: node_construct_def Literal_construct_def issubclass_def LiteralExpr_init_def
        ResolvedExpression_init_def initial_state_def)
  have ty: "re_static_type (exprs ?s1 0) = Some long_type"
    by (simp add: node_construct_def Literal_construct_def issubclass_def LiteralExpr_init_def
        ResolvedExpression_init_def initial_state_def)
  have nx: "exprs_next ?s1 = 1"
    by (simp add: node_construct_def Literal_construct_def issubclass_def LiteralExpr_init_def
        ResolvedExpression_init_def initial_state_def)
  have fm: "format_msg (default_msg None
              [Text ''Expected type '', Hole_expected, Text '', got '', Hole_expr_type])
              (Some (camel example_types ty')) (camel example_types long_type)
            = Inr ''Expected type T, got T''" for ty'
    by (simp add: default_msg_def example_types_def)
  note th = construct_expected_type [where T = example_types and defer_get = "\<lambda>d. PyNone"
      and here = None and custom_msg = None and methods = no_methods and e = ?e
      and s = initial_state]
  show ?thesis
    using th [where Ty = "DeclaredType 0" and downcast = True, THEN conjunct1, rule_format,
              OF conjI [OF nc conjI [OF ty fm]]]
          th [where Ty = "DeclaredType 0" and downcast = False, THEN conjunct1, rule_format,
              OF conjI [OF nc conjI [OF ty fm]]]
          th [where Ty = "bool_type" and downcast = True, THEN conjunct1, rule_format,
              OF conjI [OF nc conjI [OF ty fm]]]
    by (simp add: nx example_types_def Let_def)
qed

section \<open>Properties of local variable names\<close>

lemma unique_name_spec:
  "nm = candidate orig i \<Longrightarrow> \<forall>j<i. candidate orig j \<in> fst ` set tbl \<Longrightarrow>
   \<exists>k\<ge>i. unique_name tbl orig i nm = candidate orig k
          \<and> candidate orig k \<notin> fst ` set tbl
          \<and> (\<forall>j<k. candidate orig j \<in> fst ` set tbl)"
proof (induction tbl orig i nm rule: unique_name.induct)
  case (1 tbl orig_name i nm)
  show ?case
  proof (cases "nm \<in> fst ` set tbl")
    case False
    with 1(2,3) show ?thesis by (subst unique_name.simps) auto
  next
    case True
    have c: "name_add orig_name (Name (str_nat (i + 1))) = candidate orig_name (i + 1)"
      by (simp add: candidate_def)
    have all: "\<forall>j<i + 1. candidate orig_name j \<in> fst ` set tbl"
      using 1(2,3) True by (auto simp: less_Suc_eq)
    from 1(1) [OF True c all] obtain k where
      "k \<ge> i + 1" "unique_name tbl orig_name (i + 1) (name_add orig_name (Name (str_nat (i + 1)))) = candidate orig_name k"
      "candidate orig_name k \<notin> fst ` set tbl" "\<forall>j<k. candidate orig_name j \<in> fst ` set tbl"
      by blast
    with True show ?thesis
      by (subst unique_name.simps) (auto intro!: exI [of _ k])
  qed
qed

lemma unique_name_first:
  "\<exists>k. unique_name tbl nm 0 nm = candidate nm k
       \<and> candidate nm k \<notin> fst ` set tbl
       \<and> (\<forall>j<k. candidate nm j \<in> fst ` set tbl)"
  using unique_name_spec [of nm nm 0 tbl] by (auto simp: candidate_def)

lemma unique_name_fresh: "unique_name tbl nm 0 nm \<notin> fst ` set tbl"
proof -
  obtain k where "unique_name tbl nm 0 nm = candidate nm k" "candidate nm k \<notin> fst ` set tbl"
    using unique_name_first [of tbl nm] by blast
  then show ?thesis by simp
qed

lemma create_scopeless_table:
  "local_vars_tbl (snd (create_scopeless lvs nm ty))
     = local_vars_tbl lvs @ [(lv_name (fst (create_scopeless lvs nm ty)), fst (create_scopeless lvs nm ty))]"
proof -
  have "AList.update k v al = al @ [(k, v)]" if "k \<notin> fst ` set al" for k v and al :: "(name \<times> local_var) list"
    using that by (induction al) auto
  then show ?thesis
    using unique_name_fresh [of "local_vars_tbl lvs" nm]
    by (simp add: create_scopeless_def Let_def)
qed

lemma create_scopeless_name:
  "lv_name (fst (create_scopeless lvs nm ty)) = unique_name (local_vars_tbl lvs) nm 0 nm"
  by (simp add: create_scopeless_def Let_def)

lemma update_present_keys:
  "k \<in> fst ` set al \<Longrightarrow> map fst (AList.update k v al) = map fst al"
  by (simp add: update_keys)

lemma map_of_key: "map_of al k = Some v \<Longrightarrow> k \<in> fst ` set al"
  by (metis domI dom_map_of_conv_image_fst)

lemma Scope_add_names:
  "table_names (snd (Scope_add q k p nm s)) p' = table_names s p'"
proof (cases "map_of (local_vars_tbl (pd_vars (properties s p))) nm")
  case None
  then show ?thesis by (simp add: Scope_add_def)
next
  case (Some var)
  note key = map_of_key [OF Some]
  show ?thesis
  proof (cases "lv_scope var = None")
    case False
    with Some show ?thesis by (simp add: Scope_add_def)
  next
    case True
    show ?thesis
    proof (cases "p' = p")
      case False
      with Some True show ?thesis
        by (simp add: Scope_add_def table_names_def Let_def)
    next
      case pp: True
      show ?thesis
      proof (cases "q = p")
        case True
        with Some \<open>lv_scope var = None\<close> pp key show ?thesis
          by (simp add: Scope_add_def table_names_def Let_def update_present_keys)
      next
        case False
        with Some \<open>lv_scope var = None\<close> pp key show ?thesis
          by (simp add: Scope_add_def table_names_def Let_def update_present_keys)
      qed
    qed
  qed
qed

lemma create_unfold:
  "snd (create p nm ty s) =
     (let cs = create_scopeless (pd_vars (properties s p)) nm ty;
          s1 = s\<lparr>properties := (properties s)(p := (properties s p)\<lparr>pd_vars := snd cs\<rparr>)\<rparr>
      in case PropertyDef_get s1 of
           None \<Rightarrow> s1
         | Some q \<Rightarrow> snd (Scope_add q (current_scope (pd_vars (properties s1 q))) p (lv_name (fst cs)) s1))"
  by (simp add: create_def Let_def split_beta split: option.splits prod.splits sum.splits)

lemma create_names:
  "table_names (snd (create p nm ty s)) p
     = table_names s p @ [lv_name (fst (create_scopeless (pd_vars (properties s p)) nm ty))]"
proof -
  let ?cs = "create_scopeless (pd_vars (properties s p)) nm ty"
  let ?s1 = "s\<lparr>properties := (properties s)(p := (properties s p)\<lparr>pd_vars := snd ?cs\<rparr>)\<rparr>"
  have n1: "table_names ?s1 p = table_names s p @ [lv_name (fst ?cs)]"
    by (simp add: table_names_def create_scopeless_table)
  show ?thesis
  proof (cases "PropertyDef_get ?s1")
    case None
    then show ?thesis unfolding create_unfold Let_def using n1 by simp
  next
    case (Some q)
    then show ?thesis unfolding create_unfold Let_def using n1
      by (simp add: Scope_add_names)
  qed
qed

lemma do_request_names:
  "table_names (snd (do_request p r s)) p = table_names s p @ [created_name p r s]"
proof (cases r)
  case (Create nm ty)
  have "snd (do_request p r s) = snd (create p nm ty s)"
    unfolding Create by (cases "create p nm ty s") (auto split: sum.splits)
  then show ?thesis using create_names [of p nm ty s] Create by simp
next
  case (CreateScopeless nm ty)
  then show ?thesis
    by (simp add: split_beta table_names_def create_scopeless_table)
qed

lemma created_name_fresh: "created_name p r s \<notin> set (table_names s p)"
  using unique_name_fresh [of "local_vars_tbl (pd_vars (properties s p))"]
  by (cases r) (simp_all add: create_scopeless_name table_names_def)

lemma run_requests_names:
  "table_names (snd (run_requests p reqs s)) p = table_names s p @ fst (run_requests p reqs s)"
proof (induction reqs arbitrary: s)
  case Nil
  show ?case by simp
next
  case (Cons r reqs)
  obtain res s1 where d: "do_request p r s = (res, s1)" by (cases "do_request p r s")
  have n1: "table_names s1 p = table_names s p @ [created_name p r s]"
    using do_request_names [of p r s] d by simp
  show ?case
  proof (cases res)
    case (Inl e)
    with d n1 show ?thesis by simp
  next
    case (Inr u)
    with d n1 Cons.IH [of s1] show ?thesis by simp
  qed
qed

lemma run_requests_fresh:
  "distinct (fst (run_requests p reqs s)) \<and> set (fst (run_requests p reqs s)) \<inter> set (table_names s p) = {}"
proof (induction reqs arbitrary: s)
  case Nil
  show ?case by simp
next
  case (Cons r reqs)
  obtain res s1 where d: "do_request p r s = (res, s1)" by (cases "do_request p r s")
  have n1: "table_names s1 p = table_names s p @ [created_name p r s]"
    using do_request_names [of p r s] d by simp
  note fr = created_name_fresh [of p r s]
  show ?case
  proof (cases res)
    case (Inl e)
    with d fr show ?thesis by simp
  next
    case (Inr u)
    with d n1 fr Cons.IH [of s1] show ?thesis by auto
  qed
qed

text \<open>
  C8. \<^verbatim>\<open>create_scopeless\<close> registers the new variable under a name that no variable
  of the property's table has, whatever scope the earlier variables are in, and keeps all
  earlier entries: the name is the first of the requested name, the name suffixed with 1,
  with 2, ... that is not in the table. Hence, for every sequence of calls of
  \<^verbatim>\<open>create\<close> and \<^verbatim>\<open>create_scopeless\<close> on one property, the names registered are
  pairwise different, differ from the names that were in the table before, and are
  exactly the names added to the table.
\<close>

theorem local_names_unique:
  "lv_name (fst (create_scopeless lvs nm ty)) \<notin> fst ` set (local_vars_tbl lvs)
   \<and> local_vars_tbl (snd (create_scopeless lvs nm ty))
       = local_vars_tbl lvs @ [(lv_name (fst (create_scopeless lvs nm ty)), fst (create_scopeless lvs nm ty))]
   \<and> (\<exists>i. lv_name (fst (create_scopeless lvs nm ty)) = candidate nm i
          \<and> (\<forall>j<i. candidate nm j \<in> fst ` set (local_vars_tbl lvs)))
   \<and> table_names (snd (run_requests p reqs s)) p = table_names s p @ fst (run_requests p reqs s)
   \<and> distinct (fst (run_requests p reqs s))
   \<and> set (fst (run_requests p reqs s)) \<inter> set (table_names s p) = {}"
  using unique_name_first [of "local_vars_tbl lvs" nm] unique_name_fresh [of "local_vars_tbl lvs" nm]
    create_scopeless_table [of lvs nm ty] run_requests_names [of p reqs s] run_requests_fresh [of p reqs s]
  unfolding create_scopeless_name by blast

lemma run_requests_example: "fst (run_requests 0 [Create (Name ''X'') None, CreateScopeless (Name ''X'') None,
                 Create (Name ''X'') None] bound_state)
       = [Name ''X'', Name ''X_1'', Name ''X_2'']"
  by code_simp

theorem local_names_unique_witness:
  "distinct (fst (run_requests 0 [Create (Name ''X'') None, CreateScopeless (Name ''X'') None,
                 Create (Name ''X'') None] bound_state))
   \<and> fst (run_requests 0 [Create (Name ''X'') None, CreateScopeless (Name ''X'') None,
                 Create (Name ''X'') None] bound_state)
       = [Name ''X'', Name ''X_1'', Name ''X_2'']
   \<and> table_names (snd (run_requests 0 [Create (Name ''X'') None, CreateScopeless (Name ''X'') None,
                 Create (Name ''X'') None] bound_state)) 0 = [Name ''X'', Name ''X_1'', Name ''X_2'']"
proof -
  have t0: "table_names bound_state 0 = []"
    by (simp add: table_names_def bound_state_def initial_state_def blank_property_def LocalVars_init_def)
  let ?reqs = "[Create (Name ''X'') None, CreateScopeless (Name ''X'') None, Create (Name ''X'') None]"
  note th = local_names_unique [of LocalVars_init "Name ''X''" None 0 ?reqs bound_state]
  from th have d: "distinct (fst (run_requests 0 ?reqs bound_state))" by blast
  from th have n: "table_names (snd (run_requests 0 ?reqs bound_state)) 0
      = table_names bound_state 0 @ fst (run_requests 0 ?reqs bound_state)" by blast
  show ?thesis
    using d n unfolding t0 run_requests_example by simp
qed

section \<open>Properties of variable resolution\<close>

lemma VariableExpr_init_variables:
  "variables (snd (VariableExpr_init ty nm av s)) = variables s"
  by (simp add: VariableExpr_init_def ResolvedExpression_init_def Let_def split: option.splits)

lemma construct_cache_same:
  "AbstractVariable_construct v s = (res, s1) \<Longrightarrow>
   map_of (av_construct_cache (variables s v)) key = Some r \<Longrightarrow>
   map_of (av_construct_cache (variables s1 v)) key = Some r"
proof -
  assume c: "AbstractVariable_construct v s = (res, s1)"
     and k: "map_of (av_construct_cache (variables s v)) key = Some r"
  let ?key = "(av_name (variables s v), av_type (variables s v))"
  show ?thesis
  proof (cases "map_of (av_construct_cache (variables s v)) ?key")
    case (Some e)
    with c k show ?thesis by (simp add: AbstractVariable_construct_def Let_def)
  next
    case None
    then have ne: "?key \<noteq> key" using k by auto
    obtain res' s' where vi: "VariableExpr_init (av_type (variables s v)) (av_name (variables s v)) (Some v) s = (res', s')"
      by (cases "VariableExpr_init (av_type (variables s v)) (av_name (variables s v)) (Some v) s")
    have vs: "variables s' = variables s"
      using VariableExpr_init_variables [of "av_type (variables s v)" "av_name (variables s v)" "Some v" s] vi by simp
    show ?thesis
    proof (cases res')
      case (Inl e)
      with c None vi vs k show ?thesis by (auto simp add: AbstractVariable_construct_def Let_def)
    next
      case (Inr e)
      with c None vi vs k ne show ?thesis
        by (auto simp add: AbstractVariable_construct_def Let_def update_conv')
    qed
  qed
qed

lemma construct_other_variable:
  "w \<noteq> v \<Longrightarrow> variables (snd (AbstractVariable_construct w s)) v = variables s v"
  by (auto simp add: AbstractVariable_construct_def Let_def VariableExpr_init_variables
      split: option.splits prod.splits sum.splits)
     (metis VariableExpr_init_variables snd_conv)+

lemma apply_op_cache:
  "map_of (av_construct_cache (variables s v)) key = Some r \<Longrightarrow>
   map_of (av_construct_cache (variables (apply_op op s) v)) key = Some r"
proof (cases op)
  case (Op_construct w)
  show "map_of (av_construct_cache (variables s v)) key = Some r \<Longrightarrow> ?thesis"
  proof (cases "w = v")
    case True
    assume "map_of (av_construct_cache (variables s v)) key = Some r"
    then show ?thesis
      using construct_cache_same [of v s "fst (AbstractVariable_construct v s)" "snd (AbstractVariable_construct v s)" key r]
        Op_construct True by simp
  next
    case False
    assume "map_of (av_construct_cache (variables s v)) key = Some r"
    then show ?thesis using construct_other_variable [OF False, of s] Op_construct by simp
  qed
next
  case (Op_set_name w nm)
  then show "map_of (av_construct_cache (variables s v)) key = Some r \<Longrightarrow> ?thesis" by auto
next
  case (Op_set_type w ty)
  then show "map_of (av_construct_cache (variables s v)) key = Some r \<Longrightarrow> ?thesis" by auto
qed

lemma run_ops_cache:
  "map_of (av_construct_cache (variables s v)) key = Some r \<Longrightarrow>
   map_of (av_construct_cache (variables (run_ops ops s) v)) key = Some r"
  by (induction ops arbitrary: s) (simp_all add: apply_op_cache)

lemma construct_fills_cache:
  "AbstractVariable_construct v s = (Inr r, s1) \<Longrightarrow>
   map_of (av_construct_cache (variables s1 v)) (av_name (variables s v), av_type (variables s v)) = Some r"
proof -
  assume c: "AbstractVariable_construct v s = (Inr r, s1)"
  let ?key = "(av_name (variables s v), av_type (variables s v))"
  show ?thesis
  proof (cases "map_of (av_construct_cache (variables s v)) ?key")
    case (Some e)
    with c show ?thesis by (simp add: AbstractVariable_construct_def Let_def)
  next
    case None
    obtain res' s' where vi: "VariableExpr_init (av_type (variables s v)) (av_name (variables s v)) (Some v) s = (res', s')"
      by (cases "VariableExpr_init (av_type (variables s v)) (av_name (variables s v)) (Some v) s")
    have vs: "variables s' = variables s"
      using VariableExpr_init_variables [of "av_type (variables s v)" "av_name (variables s v)" "Some v" s] vi by simp
    show ?thesis
    proof (cases res')
      case (Inl e)
      with c None vi show ?thesis by (auto simp add: AbstractVariable_construct_def Let_def)
    next
      case (Inr e)
      with c None vi vs show ?thesis
        by (auto simp add: AbstractVariable_construct_def Let_def update_conv')
    qed
  qed
qed

lemma construct_hit:
  "map_of (av_construct_cache (variables s v)) (av_name (variables s v), av_type (variables s v)) = Some r \<Longrightarrow>
   AbstractVariable_construct v s = (Inr r, s)"
  by (simp add: AbstractVariable_construct_def Let_def)

lemma construct_memoized:
  "AbstractVariable_construct v s = (Inr r, s1) \<Longrightarrow>
   s2 = run_ops ops s1 \<Longrightarrow>
   av_name (variables s2 v) = av_name (variables s v) \<Longrightarrow>
   av_type (variables s2 v) = av_type (variables s v) \<Longrightarrow>
   AbstractVariable_construct v s2 = (Inr r, s2)"
  using construct_hit [of s2 v r] run_ops_cache [OF construct_fills_cache, of v s r s1 ops] by simp

lemma construct_new_object:
  "map_of (av_construct_cache (variables s v)) (av_name (variables s v), av_type (variables s v)) = None \<Longrightarrow>
   av_type (variables s v) = Some t \<Longrightarrow>
   fst (AbstractVariable_construct v s) = Inr (exprs_next s)
   \<and> exprs_next (snd (AbstractVariable_construct v s)) = exprs_next s + 1"
  by (simp add: AbstractVariable_construct_def Let_def VariableExpr_init_def ResolvedExpression_init_def)

lemma construct_keeps_variable:
  "av_name (variables (snd (AbstractVariable_construct w s)) v) = av_name (variables s v)
   \<and> av_type (variables (snd (AbstractVariable_construct w s)) v) = av_type (variables s v)"
proof (cases "map_of (av_construct_cache (variables s w)) (av_name (variables s w), av_type (variables s w))")
  case (Some e)
  then show ?thesis by (simp add: AbstractVariable_construct_def Let_def)
next
  case None
  obtain res' s' where vi: "VariableExpr_init (av_type (variables s w)) (av_name (variables s w)) (Some w) s = (res', s')"
    by (cases "VariableExpr_init (av_type (variables s w)) (av_name (variables s w)) (Some w) s")
  have vs: "variables s' = variables s"
    using VariableExpr_init_variables [of "av_type (variables s w)" "av_name (variables s w)" "Some w" s] vi by simp
  show ?thesis
    using None vi vs by (cases res') (auto simp add: AbstractVariable_construct_def Let_def)
qed

lemma construct_miss_state:
  "map_of (av_construct_cache (variables s v)) (av_name (variables s v), av_type (variables s v)) = None \<Longrightarrow>
   av_type (variables s v) = Some t \<Longrightarrow>
   av_construct_cache (variables (snd (AbstractVariable_construct v s)) v)
     = AList.update (av_name (variables s v), av_type (variables s v)) (exprs_next s)
         (av_construct_cache (variables s v))"
  by (simp add: AbstractVariable_construct_def Let_def VariableExpr_init_def ResolvedExpression_init_def)

lemma construct_variable_state: "AbstractVariable_construct 0 variable_state = (Inr 0, snd (AbstractVariable_construct 0 variable_state))"
  by (simp add: AbstractVariable_construct_def Let_def VariableExpr_init_def ResolvedExpression_init_def
      variable_state_def initial_state_def blank_variable_def)

text \<open>
  C4. When \<^verbatim>\<open>v.construct()\<close> has returned the object at address \<open>r\<close>, every later
  call made while \<open>v\<close> has the same name and the same type returns the same address
  \<open>r\<close> (the same object, not a copy) and allocates nothing, whatever constructions and
  rebindings of names and types happened in between: the cache entry for the pair
  (name, type) is never removed or overwritten. A call for a pair that is not cached
  allocates a new object, at a new address.
\<close>

theorem construct_memoized_identity:
  "(\<forall>r s1 ops.
      AbstractVariable_construct v s = (Inr r, s1)
      \<and> av_name (variables (run_ops ops s1) v) = av_name (variables s v)
      \<and> av_type (variables (run_ops ops s1) v) = av_type (variables s v)
      \<longrightarrow> AbstractVariable_construct v (run_ops ops s1) = (Inr r, run_ops ops s1))
   \<and> (\<forall>t. map_of (av_construct_cache (variables s v)) (av_name (variables s v), av_type (variables s v)) = None
          \<and> av_type (variables s v) = Some t
          \<longrightarrow> fst (AbstractVariable_construct v s) = Inr (exprs_next s)
              \<and> exprs_next (snd (AbstractVariable_construct v s)) = exprs_next s + 1)"
  using construct_memoized [of v s] construct_new_object [of s v] by blast

theorem construct_memoized_identity_witness:
  "fst (AbstractVariable_construct 0 variable_state) = Inr 0
   \<and> fst (AbstractVariable_construct 0
        (run_ops [Op_set_name 0 (Some (Name ''Y''))]
           (snd (AbstractVariable_construct 0 variable_state)))) = Inr 1
   \<and> fst (AbstractVariable_construct 0
        (run_ops [Op_set_name 0 (Some (Name ''Y'')), Op_construct 0, Op_set_name 0 (Some (Name ''X''))]
           (snd (AbstractVariable_construct 0 variable_state)))) = Inr 0"
proof -
  let ?s1 = "snd (AbstractVariable_construct 0 variable_state)"
  let ?ops = "[Op_set_name 0 (Some (Name ''Y'')), Op_construct 0, Op_set_name 0 (Some (Name ''X''))]"
  have v0: "av_name (variables variable_state 0) = Some (Name ''X'')"
    "av_type (variables variable_state 0) = Some long_type"
    "av_construct_cache (variables variable_state 0) = []"
    "exprs_next variable_state = 0"
    by (simp_all add: variable_state_def initial_state_def blank_variable_def)
  have nm: "av_name (variables (run_ops ?ops ?s1) 0) = av_name (variables variable_state 0)"
    by (simp add: v0)
  have ty: "av_type (variables (run_ops ?ops ?s1) 0) = av_type (variables variable_state 0)"
    by (simp add: construct_keeps_variable)
  have c1: "av_construct_cache (variables ?s1 0) = [((Some (Name ''X''), Some long_type), 0)]"
    using construct_miss_state [of variable_state 0 long_type] by (simp add: v0)
  have n1: "exprs_next ?s1 = 1"
    using construct_new_object [of variable_state 0 long_type] by (simp add: v0)
  have y: "fst (AbstractVariable_construct 0 (run_ops [Op_set_name 0 (Some (Name ''Y''))] ?s1)) = Inr 1"
    using construct_new_object [of "run_ops [Op_set_name 0 (Some (Name ''Y''))] ?s1" 0 long_type]
    by (simp add: c1 n1 construct_keeps_variable v0)
  have f1: "fst (AbstractVariable_construct 0 variable_state) = Inr 0"
    using construct_new_object [of variable_state 0 long_type] by (simp add: v0)
  have f3: "AbstractVariable_construct 0 (run_ops ?ops ?s1) = (Inr 0, run_ops ?ops ?s1)"
    by (rule construct_memoized_identity [of 0 variable_state, THEN conjunct1, rule_format,
          OF conjI [OF construct_variable_state conjI [OF nm ty]]])
  have f3': "fst (AbstractVariable_construct 0 (run_ops ?ops ?s1)) = Inr 0"
    unfolding f3 by simp
  show ?thesis using f1 y f3' by blast
qed

section \<open>Properties of dynamic variables\<close>


lemma AbstractVariable_construct_typed:
  "av_type (variables s v) = Some t \<Longrightarrow> \<exists>r s'. AbstractVariable_construct v s = (Inr r, s')"
  by (auto simp add: AbstractVariable_construct_def Let_def VariableExpr_init_def
      ResolvedExpression_init_def split: option.splits)









lemma construct_miss_explicit:
  "av_type (variables s v) = Some t \<Longrightarrow>
   map_of (av_construct_cache (variables s v)) (av_name (variables s v), Some t) = None \<Longrightarrow>
   AbstractVariable_construct v s
     = (Inr (exprs_next s),
        s\<lparr>exprs := (exprs s)(exprs_next s :=
              \<lparr>re_class = VariableExpr (av_name (variables s v)) (Some v) False,
               re_static_type = Some t, re_result_var = None,
               re_skippable_refcount = True, re_abstract_expr = None,
               re_render_pre_called = False, re_location = None\<rparr>),
           exprs_next := exprs_next s + 1,
           variables := (variables s)(v := (variables s v)\<lparr>av_construct_cache :=
              AList.update (av_name (variables s v), Some t) (exprs_next s)
                (av_construct_cache (variables s v))\<rparr>)\<rparr>)"
  by (simp add: AbstractVariable_construct_def Let_def VariableExpr_init_def ResolvedExpression_init_def)











section \<open>Properties of ignored variables\<close>

lemma lower_char_underscore: "lower_char c = CHR ''_'' \<longleftrightarrow> c = CHR ''_''"
proof
  assume a: "lower_char c = CHR ''_''"
  show "c = CHR ''_''"
  proof (cases "65 \<le> (of_char c :: nat) \<and> (of_char c :: nat) \<le> 90")
    case False
    with a show ?thesis by (simp add: lower_char_def Let_def)
  next
    case True
    with a have "char_of ((of_char c :: nat) + 32) = CHR ''_''" by (simp add: lower_char_def Let_def)
    then have "(of_char (char_of ((of_char c :: nat) + 32)) :: nat) = of_char CHR ''_''" by simp
    with True show ?thesis by (simp add: of_char_of)
  qed
next
  assume "c = CHR ''_''"
  then show "lower_char c = CHR ''_''" by (simp add: lower_char_def)
qed

lemma lower_underscore: "lower n = ''_'' \<longleftrightarrow> n = Name ''_''"
proof (cases n)
  case (Name b)
  have "map lower_char b = ''_'' \<longleftrightarrow> b = ''_''"
    by (cases b) (auto simp add: lower_char_underscore)
  with Name show ?thesis by (simp add: lower_def str_lower_def)
qed

lemma from_lower_underscore: "from_lower ''_'' = Name ''_''"
  by (simp add: from_lower_def)

lemma init_unused:
  "AbstractVariable_init kind here (Some (Name ''_'')) ty False src s
     = (Inr (variables_next s),
        s\<lparr>unused_count := unused_count s + 1,
          variables := (variables s)(variables_next s :=
             \<lparr>av_kind = kind, av_type = ty, av_local_var = None,
              av_name = Some (Name (''Unused_'' @ str_nat (unused_count s))),
              av_source_name = src, av_construct_cache = [], av_ignored = False,
              av_location = here\<rparr>),
          variables_next := variables_next s + 1\<rparr>)"
  by (simp add: AbstractVariable_init_def lower_underscore Let_def)

lemma init_counter:
  "unused_count (snd (AbstractVariable_init kind here nm ty create_local src s))
     = (if nm = Some (Name ''_'') then unused_count s + 1 else unused_count s)"
  by (auto simp add: AbstractVariable_init_def lower_underscore Let_def create_local_variable_def
      split_beta split: option.splits prod.splits sum.splits)

lemma source_underscore_ignored:
  "av_source_name var = Some (Name ''_'') \<Longrightarrow> AbstractVariable_ignored var"
  by (simp add: AbstractVariable_ignored_def from_lower_underscore)

lemma expr_source_underscore_ignored:
  "VariableExpr_source_name s e = Some (Name ''_'') \<Longrightarrow> VariableExpr_ignored s e"
  by (auto simp add: VariableExpr_source_name_def VariableExpr_ignored_def source_underscore_ignored
      split: expr_class.splits option.splits)

lemma not_in_unused:
  "VariableExpr_source_name s (exprs s var) = Some (Name ''_'') \<Longrightarrow> var \<notin> set (unused_vars s all_vars)"
  by (auto simp add: unused_vars_def expr_source_underscore_ignored)

lemma no_unused:
  assumes "\<forall>p \<in> set all_vars. \<not> snd p \<longrightarrow> VariableExpr_source_name s (exprs s (fst p)) = Some (Name ''_'')"
  shows "unused_vars s all_vars = []"
proof -
  have "filter (\<lambda>(var, is_used). \<not> is_used \<and> \<not> VariableExpr_ignored s (exprs s var)) all_vars = []"
    using assms by (auto simp add: filter_empty_conv expr_source_underscore_ignored)
  then show ?thesis by (simp add: unused_vars_def)
qed

lemma no_warning:
  assumes "unused_vars s all_vars = []" and "warn_on_unused_bindings s all_vars = Inr ws"
  shows "ws = [] \<or> (\<exists>names. ws = [''The following bindings are used even though they are supposed to be ignored: '' @ names])"
  using assms by (auto simp add: warn_on_unused_bindings_def Let_def split: sum.splits if_splits)

lemma str_nat_digits:
  "str_nat 1 = ''1''" "str_nat 2 = ''2''" "str_nat (Suc 0) = ''1''" "str_nat (Suc (Suc 0)) = ''2''"
  by code_simp+

lemma init_create_local:
  assumes "PropertyDef_get s = Some p"
  shows "AbstractVariable_init kind here (Some (Name ''_'')) ty True src s
     = (Inr (variables_next s),
        s\<lparr>unused_count := unused_count s + 1,
          properties := (properties s)(p := (properties s p)\<lparr>pd_vars :=
             snd (create_scopeless (pd_vars (properties s p))
                    (Name (''Unused_'' @ str_nat (unused_count s))) ty)\<rparr>),
          variables := (variables s)(variables_next s :=
             \<lparr>av_kind = kind, av_type = ty,
              av_local_var = Some (p, unique_name (local_vars_tbl (pd_vars (properties s p)))
                                       (Name (''Unused_'' @ str_nat (unused_count s))) 0
                                       (Name (''Unused_'' @ str_nat (unused_count s)))),
              av_name = Some (unique_name (local_vars_tbl (pd_vars (properties s p)))
                                       (Name (''Unused_'' @ str_nat (unused_count s))) 0
                                       (Name (''Unused_'' @ str_nat (unused_count s)))),
              av_source_name = src, av_construct_cache = [], av_ignored = False,
              av_location = here\<rparr>),
          variables_next := variables_next s + 1\<rparr>)"
  using assms
  by (simp add: AbstractVariable_init_def lower_underscore Let_def create_local_variable_def
      PropertyDef_get_def create_scopeless_def)

lemma init_create_local_plain:
  assumes "PropertyDef_get s = Some p" and "n \<noteq> Name ''_''"
  shows "AbstractVariable_init kind here (Some n) ty True src s
     = (Inr (variables_next s),
        s\<lparr>properties := (properties s)(p := (properties s p)\<lparr>pd_vars :=
             snd (create_scopeless (pd_vars (properties s p)) n ty)\<rparr>),
          variables := (variables s)(variables_next s :=
             \<lparr>av_kind = kind, av_type = ty,
              av_local_var = Some (p, unique_name (local_vars_tbl (pd_vars (properties s p))) n 0 n),
              av_name = Some (unique_name (local_vars_tbl (pd_vars (properties s p))) n 0 n),
              av_source_name = src, av_construct_cache = [], av_ignored = False,
              av_location = here\<rparr>),
          variables_next := variables_next s + 1\<rparr>)"
  using assms
  by (simp add: AbstractVariable_init_def lower_underscore Let_def create_local_variable_def
      PropertyDef_get_def create_scopeless_def)

lemma init_no_property:
  assumes "PropertyDef_get s = None"
  shows "fst (AbstractVariable_init kind here (Some (Name ''_'')) ty True src s)
           = Inl (AttributeError ''vars'')"
  using assms
  by (simp add: AbstractVariable_init_def lower_underscore Let_def create_local_variable_def
      PropertyDef_get_def)

lemma digit_not_underscore: "d < 10 \<Longrightarrow> digit_char d \<noteq> CHR ''_''"
proof
  assume d: "d < 10" and e: "digit_char d = CHR ''_''"
  from of_char_digit_char [OF d] e have "(of_char CHR ''_'' :: nat) = 48 + d" by simp
  with d show False by simp
qed

lemma str_nat_no_underscore: "CHR ''_'' \<notin> set (str_nat n)"
proof (induction n rule: str_nat.induct)
  case (1 n)
  show ?case
  proof (cases "n < 10")
    case True
    then show ?thesis
      using digit_not_underscore [of n] by (subst str_nat.simps) auto
  next
    case False
    have "n mod 10 < 10" by simp
    then have "digit_char (n mod 10) \<noteq> CHR ''_''" by (rule digit_not_underscore)
    with 1 False show ?thesis
      by (subst str_nat.simps) auto
  qed
qed

lemma candidate_spelling:
  "\<exists>r. candidate (Name (''Unused_'' @ str_nat i)) k = Name (''Unused_'' @ str_nat i @ r)
       \<and> takeWhile (\<lambda>c. c \<noteq> CHR ''_'') r = []"
  by (cases "k = 0") (simp_all add: candidate_def name_add_def)

lemma takeWhile_digits:
  assumes "takeWhile (\<lambda>c. c \<noteq> CHR ''_'') r = []"
  shows "takeWhile (\<lambda>c. c \<noteq> CHR ''_'') (str_nat i @ r) = str_nat i"
proof -
  have "\<forall>x \<in> set (str_nat i). x \<noteq> CHR ''_''"
    using str_nat_no_underscore [of i] by auto
  then have "takeWhile (\<lambda>c. c \<noteq> CHR ''_'') (str_nat i @ r)
      = str_nat i @ takeWhile (\<lambda>c. c \<noteq> CHR ''_'') r"
    by (simp add: takeWhile_append2)
  with assms show ?thesis by simp
qed

lemma candidate_unused_inj:
  assumes "candidate (Name (''Unused_'' @ str_nat i)) k = candidate (Name (''Unused_'' @ str_nat j)) l"
  shows "i = j"
proof -
  obtain r1 where r1: "candidate (Name (''Unused_'' @ str_nat i)) k = Name (''Unused_'' @ str_nat i @ r1)"
    "takeWhile (\<lambda>c. c \<noteq> CHR ''_'') r1 = []"
    using candidate_spelling [of i k] by blast
  obtain r2 where r2: "candidate (Name (''Unused_'' @ str_nat j)) l = Name (''Unused_'' @ str_nat j @ r2)"
    "takeWhile (\<lambda>c. c \<noteq> CHR ''_'') r2 = []"
    using candidate_spelling [of j l] by blast
  from assms r1(1) r2(1) have "str_nat i @ r1 = str_nat j @ r2" by simp
  then have "takeWhile (\<lambda>c. c \<noteq> CHR ''_'') (str_nat i @ r1)
      = takeWhile (\<lambda>c. c \<noteq> CHR ''_'') (str_nat j @ r2)" by simp
  then have "str_nat i = str_nat j"
    by (simp only: takeWhile_digits [OF r1(2)] takeWhile_digits [OF r2(2)])
  then show ?thesis by (rule str_nat_inj)
qed

lemma init_name_candidate:
  assumes "AbstractVariable_init kind here (Some (Name ''_'')) ty cl src s = (Inr a, s')"
  shows "\<exists>k. av_name (variables s' a)
              = Some (candidate (Name (''Unused_'' @ str_nat (unused_count s))) k)"
proof (cases cl)
  case False
  with assms have "a = variables_next s"
    and "av_name (variables s' a) = Some (Name (''Unused_'' @ str_nat (unused_count s)))"
    by (auto simp add: init_unused)
  then have "av_name (variables s' a)
      = Some (candidate (Name (''Unused_'' @ str_nat (unused_count s))) 0)"
    by (simp add: candidate_def)
  then show ?thesis by blast
next
  case True
  show ?thesis
  proof (cases "PropertyDef_get s")
    case None
    from init_no_property [OF None, of kind here ty src] assms True show ?thesis by simp
  next
    case (Some p)
    obtain k where k: "unique_name (local_vars_tbl (pd_vars (properties s p)))
        (Name (''Unused_'' @ str_nat (unused_count s))) 0 (Name (''Unused_'' @ str_nat (unused_count s)))
        = candidate (Name (''Unused_'' @ str_nat (unused_count s))) k"
      using unique_name_first by blast
    from assms True have "av_name (variables s' a)
        = Some (unique_name (local_vars_tbl (pd_vars (properties s p)))
        (Name (''Unused_'' @ str_nat (unused_count s))) 0 (Name (''Unused_'' @ str_nat (unused_count s))))"
      by (auto simp add: init_create_local [OF Some])
    with k show ?thesis by auto
  qed
qed

lemma underscore_names_differ:
  assumes "unused_count s2 \<noteq> unused_count s"
    and "AbstractVariable_init kind here (Some (Name ''_'')) ty cl src s = (Inr a, s1')"
    and "AbstractVariable_init kind2 here2 (Some (Name ''_'')) ty2 cl2 src2 s2 = (Inr b, s2')"
  shows "av_name (variables s1' a) \<noteq> av_name (variables s2' b)"
proof
  assume e: "av_name (variables s1' a) = av_name (variables s2' b)"
  from init_name_candidate [OF assms(2)] obtain k where
    k: "av_name (variables s1' a) = Some (candidate (Name (''Unused_'' @ str_nat (unused_count s))) k)"
    by blast
  from init_name_candidate [OF assms(3)] obtain l where
    l: "av_name (variables s2' b) = Some (candidate (Name (''Unused_'' @ str_nat (unused_count s2))) l)"
    by blast
  from e k l have "candidate (Name (''Unused_'' @ str_nat (unused_count s))) k
      = candidate (Name (''Unused_'' @ str_nat (unused_count s2))) l" by simp
  then have "unused_count s = unused_count s2" by (rule candidate_unused_inj)
  with assms(1) show False by simp
qed

lemma unique_name_free: "nm \<notin> fst ` set tbl \<Longrightarrow> unique_name tbl orig i nm = nm"
  by (subst unique_name.simps) simp

lemma new_underscore_init:
  "new_underscore = AbstractVariable_init PlainVariable None (Some (Name ''_'')) None True (Some (Name ''_''))"
  by (simp add: new_underscore_def Let_variable_def from_lower_underscore)

lemma bound_state_facts:
  "PropertyDef_get bound_state = Some 0" "unused_count bound_state = 1"
  "variables_next bound_state = 0" "local_vars_tbl (pd_vars (properties bound_state 0)) = []"
  "exprs_next bound_state = 0"
  by (simp_all add: bound_state_def initial_state_def PropertyDef_get_def blank_property_def
      LocalVars_init_def)

lemma first_underscore_state:
  "snd (new_underscore bound_state)
     = bound_state\<lparr>unused_count := 2,
          properties := (properties bound_state)(0 := (properties bound_state 0)\<lparr>pd_vars :=
             snd (create_scopeless (pd_vars (properties bound_state 0)) (Name ''Unused_1'') None)\<rparr>),
          variables := (variables bound_state)(0 :=
             \<lparr>av_kind = PlainVariable, av_type = None,
              av_local_var = Some (0, Name ''Unused_1''),
              av_name = Some (Name ''Unused_1''),
              av_source_name = Some (Name ''_''), av_construct_cache = [], av_ignored = False,
              av_location = None\<rparr>),
          variables_next := 1\<rparr>"
  unfolding new_underscore_init init_create_local [OF bound_state_facts(1)]
  by (simp add: bound_state_facts str_nat_digits unique_name_free)

lemma first_underscore_facts:
  "PropertyDef_get (snd (new_underscore bound_state)) = Some 0"
  "unused_count (snd (new_underscore bound_state)) = 2"
  "variables_next (snd (new_underscore bound_state)) = 1"
  "local_vars_tbl (pd_vars (properties (snd (new_underscore bound_state)) 0))
     = [(Name ''Unused_1'', \<lparr>lv_name = Name ''Unused_1'', lv_type = None, lv_scope = None\<rparr>)]"
  "exprs_next (snd (new_underscore bound_state)) = 0"
  unfolding first_underscore_state
  by (simp_all add: bound_state_facts PropertyDef_get_def create_scopeless_def unique_name_free Let_def)
    (simp add: bound_state_def)


text \<open>
  C10, as the code has it. An \<^verbatim>\<open>AbstractVariable\<close> created with the name \<^verbatim>\<open>_\<close> (the only name whose
  lower-case spelling is \<^verbatim>\<open>_\<close>) draws the value \<open>i\<close> of the shared counter, which
  this creation and no other increments, and is renamed \<^verbatim>\<open>Unused_<i>\<close>. Without
  \<^verbatim>\<open>create_local\<close> that is the name it has. With \<^verbatim>\<open>create_local\<close>, as
  \<^verbatim>\<open>Let.do_prepare\<close> creates it, the variable takes the name of the local variable
  that \<^verbatim>\<open>create_scopeless\<close> registers for \<^verbatim>\<open>Unused_<i>\<close> in the bound property:
  the first of \<^verbatim>\<open>Unused_<i>\<close>, \<^verbatim>\<open>Unused_<i>_1\<close>, \<^verbatim>\<open>Unused_<i>_2\<close>, ... that
  the property does not use yet, so \<^verbatim>\<open>Unused_<i>\<close> itself unless it is taken; with
  no property bound the creation fails. In all cases two such variables created at
  different values of the counter have different names. A variable whose source name is
  \<^verbatim>\<open>_\<close> is ignored, and so is every \<^verbatim>\<open>VariableExpr\<close> made from it; such a
  variable is never in the list of unused bindings, and when all the variables that are
  never read are of that kind no unused-binding warning is emitted.
\<close>

theorem underscore_variables:
  "AbstractVariable_init kind here (Some (Name ''_'')) ty False src s
     = (Inr (variables_next s),
        s\<lparr>unused_count := unused_count s + 1,
          variables := (variables s)(variables_next s :=
             \<lparr>av_kind = kind, av_type = ty, av_local_var = None,
              av_name = Some (Name (''Unused_'' @ str_nat (unused_count s))),
              av_source_name = src, av_construct_cache = [], av_ignored = False,
              av_location = here\<rparr>),
          variables_next := variables_next s + 1\<rparr>)
   \<and> (\<forall>p. PropertyDef_get s = Some p \<longrightarrow>
        AbstractVariable_init kind here (Some (Name ''_'')) ty True src s
          = (Inr (variables_next s),
             s\<lparr>unused_count := unused_count s + 1,
               properties := (properties s)(p := (properties s p)\<lparr>pd_vars :=
                  snd (create_scopeless (pd_vars (properties s p))
                         (Name (''Unused_'' @ str_nat (unused_count s))) ty)\<rparr>),
               variables := (variables s)(variables_next s :=
                  \<lparr>av_kind = kind, av_type = ty,
                   av_local_var = Some (p, unique_name (local_vars_tbl (pd_vars (properties s p)))
                                            (Name (''Unused_'' @ str_nat (unused_count s))) 0
                                            (Name (''Unused_'' @ str_nat (unused_count s)))),
                   av_name = Some (unique_name (local_vars_tbl (pd_vars (properties s p)))
                                            (Name (''Unused_'' @ str_nat (unused_count s))) 0
                                            (Name (''Unused_'' @ str_nat (unused_count s)))),
                   av_source_name = src, av_construct_cache = [], av_ignored = False,
                   av_location = here\<rparr>),
               variables_next := variables_next s + 1\<rparr>)
        \<and> (\<exists>k. unique_name (local_vars_tbl (pd_vars (properties s p)))
                   (Name (''Unused_'' @ str_nat (unused_count s))) 0
                   (Name (''Unused_'' @ str_nat (unused_count s)))
                 = candidate (Name (''Unused_'' @ str_nat (unused_count s))) k
               \<and> candidate (Name (''Unused_'' @ str_nat (unused_count s))) k \<notin> set (table_names s p)
               \<and> (\<forall>j<k. candidate (Name (''Unused_'' @ str_nat (unused_count s))) j
                           \<in> set (table_names s p)))
        \<and> (Name (''Unused_'' @ str_nat (unused_count s)) \<notin> set (table_names s p) \<longrightarrow>
             unique_name (local_vars_tbl (pd_vars (properties s p)))
               (Name (''Unused_'' @ str_nat (unused_count s))) 0
               (Name (''Unused_'' @ str_nat (unused_count s)))
             = Name (''Unused_'' @ str_nat (unused_count s))))
   \<and> (PropertyDef_get s = None \<longrightarrow>
        fst (AbstractVariable_init kind here (Some (Name ''_'')) ty True src s)
          = Inl (AttributeError ''vars''))
   \<and> (lower n = ''_'' \<longleftrightarrow> n = Name ''_'')
   \<and> unused_count (snd (AbstractVariable_init kind here nm ty create_local src s))
       = (if nm = Some (Name ''_'') then unused_count s + 1 else unused_count s)
   \<and> (\<forall>i j k l. i \<noteq> j \<longrightarrow> candidate (Name (''Unused_'' @ str_nat i)) k
                              \<noteq> candidate (Name (''Unused_'' @ str_nat j)) l)
   \<and> (\<forall>kind2 here2 ty2 cl2 src2 s2 a b s1' s2'.
         unused_count s2 \<noteq> unused_count s
         \<and> AbstractVariable_init kind here (Some (Name ''_'')) ty create_local src s = (Inr a, s1')
         \<and> AbstractVariable_init kind2 here2 (Some (Name ''_'')) ty2 cl2 src2 s2 = (Inr b, s2')
         \<longrightarrow> av_name (variables s1' a) \<noteq> av_name (variables s2' b))
   \<and> (\<forall>var. av_source_name var = Some (Name ''_'') \<longrightarrow> AbstractVariable_ignored var)
   \<and> (\<forall>e. VariableExpr_source_name s (exprs s e) = Some (Name ''_'')
          \<longrightarrow> VariableExpr_ignored s (exprs s e) \<and> e \<notin> set (unused_vars s all_vars))
   \<and> ((\<forall>p \<in> set all_vars. \<not> snd p \<longrightarrow> VariableExpr_source_name s (exprs s (fst p)) = Some (Name ''_''))
        \<longrightarrow> unused_vars s all_vars = []
            \<and> (\<forall>ws. warn_on_unused_bindings s all_vars = Inr ws \<longrightarrow>
                  ws = [] \<or> (\<exists>names. ws = [''The following bindings are used even though they are supposed to be ignored: '' @ names])))"
proof -
  have loc: "\<exists>k. unique_name (local_vars_tbl (pd_vars (properties s p)))
                   (Name (''Unused_'' @ str_nat (unused_count s))) 0
                   (Name (''Unused_'' @ str_nat (unused_count s)))
                 = candidate (Name (''Unused_'' @ str_nat (unused_count s))) k
               \<and> candidate (Name (''Unused_'' @ str_nat (unused_count s))) k \<notin> set (table_names s p)
               \<and> (\<forall>j<k. candidate (Name (''Unused_'' @ str_nat (unused_count s))) j
                           \<in> set (table_names s p))" for p
    using unique_name_first [of "local_vars_tbl (pd_vars (properties s p))"
        "Name (''Unused_'' @ str_nat (unused_count s))"]
    by (simp add: table_names_def)
  have free: "Name (''Unused_'' @ str_nat (unused_count s)) \<notin> set (table_names s p) \<Longrightarrow>
             unique_name (local_vars_tbl (pd_vars (properties s p)))
               (Name (''Unused_'' @ str_nat (unused_count s))) 0
               (Name (''Unused_'' @ str_nat (unused_count s)))
             = Name (''Unused_'' @ str_nat (unused_count s))" for p
    by (rule unique_name_free) (simp add: table_names_def)
  have ign: "VariableExpr_ignored s (exprs s e) \<and> e \<notin> set (unused_vars s all_vars)"
    if "VariableExpr_source_name s (exprs s e) = Some (Name ''_'')" for e
    using that expr_source_underscore_ignored [of s] not_in_unused [of s e all_vars] by blast
  have warn: "unused_vars s all_vars = []
            \<and> (\<forall>ws. warn_on_unused_bindings s all_vars = Inr ws \<longrightarrow>
                  ws = [] \<or> (\<exists>names. ws = [''The following bindings are used even though they are supposed to be ignored: '' @ names]))"
    if "\<forall>p \<in> set all_vars. \<not> snd p \<longrightarrow> VariableExpr_source_name s (exprs s (fst p)) = Some (Name ''_'')"
    using that no_unused [of all_vars s] no_warning [of s all_vars] by blast
  show ?thesis
    apply (intro conjI)
    subgoal by (rule init_unused)
    subgoal using init_create_local [of s _ kind here ty src] loc free by blast
    subgoal using init_no_property [of s kind here ty src] by blast
    subgoal by (rule lower_underscore)
    subgoal by (rule init_counter)
    subgoal using candidate_unused_inj by blast
    subgoal using underscore_names_differ [of _ s kind here ty create_local src] by blast
    subgoal using source_underscore_ignored by blast
    subgoal using ign by blast
    subgoal using warn by blast
    done
qed


theorem underscore_variables_witness:
  "av_name (variables (snd (new_underscore bound_state)) 0) = Some (Name ''Unused_1'')
   \<and> av_local_var (variables (snd (new_underscore bound_state)) 0) = Some (0, Name ''Unused_1'')
   \<and> av_name (variables (snd (new_underscore (snd (new_underscore bound_state)))) 1)
        = Some (Name ''Unused_2'')
   \<and> fst (new_underscore initial_state) = Inl (AttributeError ''vars'')
   \<and> unused_vars (run_ops [Op_set_type 0 (Some long_type), Op_construct 0]
                     (snd (new_underscore bound_state))) [(0, False)] = []"
proof -
  let ?s1 = "snd (new_underscore bound_state)"
  let ?s2 = "apply_op (Op_set_type 0 (Some long_type)) ?s1"
  let ?s3 = "run_ops [Op_set_type 0 (Some long_type), Op_construct 0] ?s1"
  note th = underscore_variables [of PlainVariable None None "Some (Name ''_'')" bound_state]
  note eq = th [THEN conjunct2, THEN conjunct1, rule_format, OF bound_state_facts(1), THEN conjunct1,
      folded new_underscore_init]
  have a: "av_name (variables ?s1 0) = Some (Name ''Unused_1'')"
    unfolding eq by (simp add: bound_state_facts str_nat_digits unique_name_free)
  have a': "av_local_var (variables ?s1 0) = Some (0, Name ''Unused_1'')"
    unfolding eq by (simp add: bound_state_facts str_nat_digits unique_name_free)
  note th1 = underscore_variables [of PlainVariable None None "Some (Name ''_'')" ?s1]
  note eq1 = th1 [THEN conjunct2, THEN conjunct1, rule_format, OF first_underscore_facts(1),
      THEN conjunct1, folded new_underscore_init]
  have b: "av_name (variables (snd (new_underscore ?s1)) 1) = Some (Name ''Unused_2'')"
    unfolding eq1 by (simp add: first_underscore_facts str_nat_digits unique_name_free)
  have g0: "PropertyDef_get initial_state = None"
    by (simp add: PropertyDef_get_def initial_state_def)
  note th0 = underscore_variables [of PlainVariable None None "Some (Name ''_'')" initial_state]
  note c = th0 [THEN conjunct2, THEN conjunct2, THEN conjunct1, rule_format, OF g0,
      folded new_underscore_init]
  have t2: "av_type (variables ?s2 0) = Some long_type" by simp
  have n2: "av_name (variables ?s2 0) = Some (Name ''Unused_1'')" using a by simp
  have k2: "av_construct_cache (variables ?s2 0) = []"
    by (simp add: first_underscore_state)
  have x2: "exprs_next ?s2 = 0" by (simp add: first_underscore_facts)
  have sn2: "av_source_name (variables ?s2 0) = Some (Name ''_'')"
    by (simp add: first_underscore_state)
  have m2: "map_of (av_construct_cache (variables ?s2 0)) (av_name (variables ?s2 0), Some long_type) = None"
    by (simp only: k2 map_of.simps)
  note ce = construct_miss_explicit [OF t2 m2]
  have s3: "?s3 = snd (AbstractVariable_construct 0 ?s2)" by simp
  have e0: "re_class (exprs ?s3 0) = VariableExpr (Some (Name ''Unused_1'')) (Some 0) False"
    unfolding s3 ce using n2 x2 by simp
  have v0: "av_source_name (variables ?s3 0) = Some (Name ''_'')"
    unfolding s3 ce using sn2 by simp
  have src: "VariableExpr_source_name ?s3 (exprs ?s3 0) = Some (Name ''_'')"
    by (simp only: VariableExpr_source_name_def e0 v0 expr_class.case option.case)
  have hyp: "\<forall>p \<in> set [(0::nat, False)]. \<not> snd p \<longrightarrow>
      VariableExpr_source_name ?s3 (exprs ?s3 (fst p)) = Some (Name ''_'')"
    using src by simp
  note th3 = underscore_variables [of _ _ _ _ ?s3 _ _ _ "[(0, False)]"]
  from th3 hyp have d: "unused_vars ?s3 [(0, False)] = []" by blast
  from a a' b c d show ?thesis by (simp only: simp_thms)
qed

text \<open>
  C10 as stated fails: in \<^verbatim>\<open>Let(lambda unused_1=..., _=...: ...)\<close> the variable of
  the first argument registers the local variable \<^verbatim>\<open>Unused_1\<close>; the counter is
  still 1 when the variable of \<^verbatim>\<open>_\<close> is created, so \<^verbatim>\<open>Unused_1\<close> is taken and
  the variable is named \<^verbatim>\<open>Unused_1_1\<close>, not \<^verbatim>\<open>Unused_1\<close>.
\<close>

theorem underscore_variable_named_with_suffix:
  "unused_count clash_state = 1
   \<and> table_names clash_state 0 = [Name ''Unused_1'']
   \<and> fst (new_underscore clash_state) = Inr 1
   \<and> av_name (variables (snd (new_underscore clash_state)) 1) = Some (Name ''Unused_1_1'')"
proof -
  have f: "from_lower ''unused_1'' = Name ''Unused_1''" by code_simp
  have ne: "Name ''Unused_1'' \<noteq> Name ''_''" by simp
  have cs: "clash_state
     = bound_state\<lparr>properties := (properties bound_state)(0 := (properties bound_state 0)\<lparr>pd_vars :=
             snd (create_scopeless (pd_vars (properties bound_state 0)) (Name ''Unused_1'') None)\<rparr>),
          variables := (variables bound_state)(0 :=
             \<lparr>av_kind = PlainVariable, av_type = None,
              av_local_var = Some (0, Name ''Unused_1''),
              av_name = Some (Name ''Unused_1''),
              av_source_name = Some (Name ''Unused_1''), av_construct_cache = [], av_ignored = False,
              av_location = None\<rparr>),
          variables_next := 1\<rparr>"
    unfolding clash_state_def Let_variable_def f
      init_create_local_plain [OF bound_state_facts(1) ne]
    by (simp add: bound_state_facts unique_name_free)
  have g: "PropertyDef_get clash_state = Some 0"
    unfolding cs by (simp add: PropertyDef_get_def) (simp add: bound_state_def)
  have u: "unused_count clash_state = 1"
    unfolding cs by (simp add: bound_state_facts)
  have vn: "variables_next clash_state = 1"
    unfolding cs by simp
  have tb: "local_vars_tbl (pd_vars (properties clash_state 0))
     = [(Name ''Unused_1'', \<lparr>lv_name = Name ''Unused_1'', lv_type = None, lv_scope = None\<rparr>)]"
    unfolding cs by (simp add: bound_state_facts create_scopeless_def unique_name_free Let_def)
  have un: "unique_name (local_vars_tbl (pd_vars (properties clash_state 0)))
              (Name ''Unused_1'') 0 (Name ''Unused_1'') = Name ''Unused_1_1''"
    unfolding tb
    by (subst unique_name.simps) (simp add: name_add_def str_nat_digits unique_name_free)
  note eq = init_create_local [OF g, of PlainVariable None None "Some (Name ''_'')",
      folded new_underscore_init]
  have r: "fst (new_underscore clash_state) = Inr 1"
    unfolding eq by (simp add: vn)
  have n: "av_name (variables (snd (new_underscore clash_state)) 1) = Some (Name ''Unused_1_1'')"
    unfolding eq using un by (simp add: vn u str_nat_digits)
  have t: "table_names clash_state 0 = [Name ''Unused_1'']"
    by (simp add: table_names_def tb)
  from u t r n show ?thesis by (simp only: simp_thms)
qed

section \<open>Properties of the context managers\<close>

lemma contextmanager_raises:
  "before s = (Inr g, s1) \<Longrightarrow> body s1 = (Inl e, s2) \<Longrightarrow>
   contextmanager before after body s = (Inl e, s2)"
  by (simp add: contextmanager_def)

lemma bind_normal:
  assumes "body (s\<lparr>current_properties := current_properties s @ [Some p]\<rparr>) = (Inr r, s2)"
    and "current_properties s2 = current_properties s @ [Some p]"
  shows "PropertyDef_bind p body s = (Inr r, s2\<lparr>current_properties := current_properties s\<rparr>)"
  using assms
  by (simp add: PropertyDef_bind_def contextmanager_def pop_current_property_def)

lemma bind_raises:
  assumes "body (s\<lparr>current_properties := current_properties s @ [Some p]\<rparr>) = (Inl e, s2)"
  shows "PropertyDef_bind p body s = (Inl e, s2)"
  using assms by (simp add: PropertyDef_bind_def contextmanager_def)

lemma bind_type_normal:
  assumes "body (s\<lparr>variables := (variables s)(v := (variables s v)\<lparr>av_type := ty\<rparr>)\<rparr>) = (Inr r, s2)"
  shows "bind_type v ty body s
    = (Inr r, s2\<lparr>variables := (variables s2)(v := (variables s2 v)\<lparr>av_type := av_type (variables s v)\<rparr>)\<rparr>)"
  using assms by (simp add: bind_type_def contextmanager_def)

lemma bind_type_raises:
  assumes "body (s\<lparr>variables := (variables s)(v := (variables s v)\<lparr>av_type := ty\<rparr>)\<rparr>) = (Inl e, s2)"
  shows "bind_type v ty body s = (Inl e, s2)"
  using assms by (simp add: bind_type_def contextmanager_def)

lemma dynvar_bind_normal:
  assumes "DynamicVariable_bind_enter v nm s = (Inr g, s1)"
    and "body s1 = (Inr r, s2)"
    and "pd_dynvar_binding_stack (properties s2 (fst g)) = pd_dynvar_binding_stack (properties s1 (fst g))"
  shows "\<exists>s3. DynamicVariable_bind v nm body s = (Inr r, s3)
          \<and> av_name (variables s3 v) = av_name (variables s v)
          \<and> pd_dynvar_binding_stack (properties s3 (fst g)) = pd_dynvar_binding_stack (properties s (fst g))"
proof -
  obtain q where q: "PropertyDef_get s = Some q"
    using assms(1) by (auto simp add: DynamicVariable_bind_enter_def Let_def split: option.splits)
  with assms(1) have g: "g = (q, av_name (variables s v))"
    and st1: "pd_dynvar_binding_stack (properties s1 q) = pd_dynvar_binding_stack (properties s q) @ [v]"
    by (auto simp add: DynamicVariable_bind_enter_def Let_def)
  from assms(3) g st1 have st2: "pd_dynvar_binding_stack (properties s2 q) = pd_dynvar_binding_stack (properties s q) @ [v]"
    by simp
  show ?thesis
    using assms(1,2) g st2
    by (simp add: DynamicVariable_bind_def contextmanager_def DynamicVariable_bind_exit_def Let_def)
qed

lemma dynvar_bind_raises:
  assumes "DynamicVariable_bind_enter v nm s = (Inr g, s1)" and "body s1 = (Inl e, s2)"
  shows "DynamicVariable_bind v nm body s = (Inl e, s2)"
  using assms by (simp add: DynamicVariable_bind_def contextmanager_def)

text \<open>
  C2, as the code has it. \<^verbatim>\<open>PropertyDef.bind\<close>, \<^verbatim>\<open>SelfVariable.bind_type\<close> and
  \<^verbatim>\<open>DynamicVariable._bind\<close> restore the previous value when the managed block
  returns normally: the stack of bound properties is as before (the block having left
  it as it found it), the type of the receiver variable is the one saved on entry, and
  the name of the dynamic variable is the one saved on entry, its binding stack being as
  before. When the managed block raises, the exception propagates and the state is the
  one the block left: the statements after the \<^verbatim>\<open>yield\<close> are not run.
\<close>

theorem context_managers_restore:
  "(\<forall>r s2. body (s\<lparr>current_properties := current_properties s @ [Some p]\<rparr>) = (Inr r, s2)
            \<and> current_properties s2 = current_properties s @ [Some p]
      \<longrightarrow> PropertyDef_bind p body s = (Inr r, s2\<lparr>current_properties := current_properties s\<rparr>))
   \<and> (\<forall>r s2. body (s\<lparr>variables := (variables s)(v := (variables s v)\<lparr>av_type := ty\<rparr>)\<rparr>) = (Inr r, s2)
      \<longrightarrow> bind_type v ty body s
          = (Inr r, s2\<lparr>variables := (variables s2)(v := (variables s2 v)\<lparr>av_type := av_type (variables s v)\<rparr>)\<rparr>))
   \<and> (\<forall>g s1 r s2. DynamicVariable_bind_enter v nm s = (Inr g, s1) \<and> body s1 = (Inr r, s2)
            \<and> pd_dynvar_binding_stack (properties s2 (fst g)) = pd_dynvar_binding_stack (properties s1 (fst g))
      \<longrightarrow> (\<exists>s3. DynamicVariable_bind v nm body s = (Inr r, s3)
              \<and> av_name (variables s3 v) = av_name (variables s v)
              \<and> pd_dynvar_binding_stack (properties s3 (fst g)) = pd_dynvar_binding_stack (properties s (fst g))))
   \<and> (\<forall>e s2. body (s\<lparr>current_properties := current_properties s @ [Some p]\<rparr>) = (Inl e, s2)
      \<longrightarrow> PropertyDef_bind p body s = (Inl e, s2))
   \<and> (\<forall>e s2. body (s\<lparr>variables := (variables s)(v := (variables s v)\<lparr>av_type := ty\<rparr>)\<rparr>) = (Inl e, s2)
      \<longrightarrow> bind_type v ty body s = (Inl e, s2))
   \<and> (\<forall>g s1 e s2. DynamicVariable_bind_enter v nm s = (Inr g, s1) \<and> body s1 = (Inl e, s2)
      \<longrightarrow> DynamicVariable_bind v nm body s = (Inl e, s2))"
  using bind_normal [of body s p] bind_type_normal [of body s v ty] dynvar_bind_normal [of v nm s _ _ body]
    bind_raises [of body s p] bind_type_raises [of body s v ty] dynvar_bind_raises [of v nm s _ _ body]
  by blast

theorem context_managers_restore_witness:
  "PropertyDef_bind 0 empty_block initial_state = (Inr (), initial_state)
   \<and> bind_type 0 (Some (DeclaredType 0)) empty_block initial_state = (Inr (), initial_state)
   \<and> PropertyDef_bind 0 failing_block initial_state
       = (Inl (DiagnosticError ''Expected type T, got T''), initial_state\<lparr>current_properties := [Some 0]\<rparr>)"
proof -
  note th = context_managers_restore [where s = initial_state and p = 0 and v = 0
      and ty = "Some (DeclaredType 0)"]
  have e1: "empty_block (initial_state\<lparr>current_properties := current_properties initial_state @ [Some 0]\<rparr>)
      = (Inr (), initial_state\<lparr>current_properties := current_properties initial_state @ [Some 0]\<rparr>)"
    by (simp add: empty_block_def)
  have a: "PropertyDef_bind 0 empty_block initial_state = (Inr (), initial_state)"
    using th [where body = empty_block, THEN conjunct1, rule_format, OF conjI [OF e1]] by simp
  have e2: "empty_block (initial_state\<lparr>variables := (variables initial_state)(0 := (variables initial_state 0)\<lparr>av_type := Some (DeclaredType 0)\<rparr>)\<rparr>)
      = (Inr (), initial_state\<lparr>variables := (variables initial_state)(0 := (variables initial_state 0)\<lparr>av_type := Some (DeclaredType 0)\<rparr>)\<rparr>)"
    by (simp add: empty_block_def)
  have b: "bind_type 0 (Some (DeclaredType 0)) empty_block initial_state = (Inr (), initial_state)"
    using th [where body = empty_block, THEN conjunct2, THEN conjunct1, rule_format, OF e2] by simp
  have e3: "failing_block (initial_state\<lparr>current_properties := current_properties initial_state @ [Some 0]\<rparr>)
      = (Inl (DiagnosticError ''Expected type T, got T''), initial_state\<lparr>current_properties := current_properties initial_state @ [Some 0]\<rparr>)"
    by (simp add: failing_block_def)
  have c: "PropertyDef_bind 0 failing_block initial_state
       = (Inl (DiagnosticError ''Expected type T, got T''), initial_state\<lparr>current_properties := [Some 0]\<rparr>)"
    using th [where body = failing_block, THEN conjunct2, THEN conjunct2, THEN conjunct2, THEN conjunct1,
        rule_format, OF e3]
    by (simp add: initial_state_def)
  show ?thesis using a b c by blast
qed

text \<open>
  C2 as stated fails: when a block that raises a diagnostic is run under each of the three
  managers, and under \<^verbatim>\<open>bind\<close> and \<^verbatim>\<open>bind_type\<close> nested as for the construction of
  a property, the property stays on the stack, the receiver variable keeps the bound
  type, and the dynamic variable keeps the bound name and stays on the binding stack.
\<close>

theorem context_managers_keep_mutation_on_error:
  "current_properties (snd (PropertyDef_bind 0 failing_block initial_state))
     \<noteq> current_properties initial_state
   \<and> av_type (variables (snd (bind_type 0 (Some (DeclaredType 0)) failing_block initial_state)) 0)
     \<noteq> av_type (variables initial_state 0)
   \<and> av_name (variables (snd (DynamicVariable_bind 0 (Some (Name ''Bound_Env'')) failing_block dynvar_state)) 0)
     \<noteq> av_name (variables dynvar_state 0)
   \<and> pd_dynvar_binding_stack (properties (snd (DynamicVariable_bind 0 (Some (Name ''Bound_Env'')) failing_block dynvar_state)) 0)
     \<noteq> pd_dynvar_binding_stack (properties dynvar_state 0)
   \<and> snd (nested [PropertyDef_bind 0, bind_type 0 (Some (DeclaredType 0))] failing_block initial_state)
     \<noteq> initial_state"
proof -
  have a: "current_properties (snd (PropertyDef_bind 0 failing_block initial_state)) = [Some 0]"
    by (simp add: PropertyDef_bind_def contextmanager_def failing_block_def initial_state_def)
  have b: "av_type (variables (snd (bind_type 0 (Some (DeclaredType 0)) failing_block initial_state)) 0)
      = Some (DeclaredType 0)"
    by (simp add: bind_type_def contextmanager_def failing_block_def)
  have c: "av_name (variables (snd (DynamicVariable_bind 0 (Some (Name ''Bound_Env'')) failing_block dynvar_state)) 0)
      = Some (Name ''Bound_Env'')"
    by (simp add: DynamicVariable_bind_def contextmanager_def failing_block_def
        DynamicVariable_bind_enter_def Let_def PropertyDef_get_def dynvar_state_def)
  have d: "pd_dynvar_binding_stack (properties (snd (DynamicVariable_bind 0 (Some (Name ''Bound_Env'')) failing_block dynvar_state)) 0)
      = [0]"
    by (simp add: DynamicVariable_bind_def contextmanager_def failing_block_def
        DynamicVariable_bind_enter_def Let_def PropertyDef_get_def dynvar_state_def initial_state_def
        blank_property_def)
  have e: "current_properties (snd (nested [PropertyDef_bind 0, bind_type 0 (Some (DeclaredType 0))] failing_block initial_state))
      = [Some 0]"
    by (simp add: PropertyDef_bind_def bind_type_def contextmanager_def failing_block_def initial_state_def)
  have i: "current_properties initial_state = []" "av_type (variables initial_state 0) = None"
    by (simp_all add: initial_state_def blank_variable_def)
  have j: "av_name (variables dynvar_state 0) = None" "pd_dynvar_binding_stack (properties dynvar_state 0) = []"
    by (simp_all add: dynvar_state_def initial_state_def blank_variable_def blank_property_def)
  have e': "snd (nested [PropertyDef_bind 0, bind_type 0 (Some (DeclaredType 0))] failing_block initial_state) \<noteq> initial_state"
    using e i(1) by (metis list.distinct(1))
  show ?thesis unfolding a b c d i j using e' by simp
qed

section \<open>Properties of result variables\<close>

lemma init_without_check:
  "ResolvedExpression_init cls ty None skippable abstract s
     = (Inr (exprs_next s),
        s\<lparr>exprs := (exprs s)(exprs_next s :=
             \<lparr>re_class = cls, re_static_type = ty, re_result_var = None,
              re_skippable_refcount = skippable, re_abstract_expr = abstract,
              re_render_pre_called = False, re_location = None\<rparr>),
          exprs_next := exprs_next s + 1\<rparr>)"
  by (simp add: ResolvedExpression_init_def)

lemma render_pre_rejects:
  assumes "\<not> re_render_pre_called (exprs s e)" and "\<not> re_skippable_refcount (exprs s e)"
    and "re_static_type (exprs s e) = Some t" and "t \<noteq> no_compiled_type" and "is_refcounted T t"
    and "re_result_var (exprs s e) = None"
  shows "fst (render_pre T R e s) = Inl (AssertionError
     ''ResolvedExpression instances that return ref-counted values must store their result in a local variable'')"
  using assms by (simp add: render_pre_def refcount_condition_def type_of_expr_def Let_def)

lemma render_pre_accepts:
  assumes "fst (render_pre T R e s) = Inr text"
  shows "re_skippable_refcount (exprs s e)
         \<or> (\<exists>t. re_static_type (exprs s e) = Some t
               \<and> (t = no_compiled_type \<or> \<not> is_refcounted T t \<or> re_result_var (exprs s e) \<noteq> None))"
proof (rule ccontr)
  assume n: "\<not> ?thesis"
  show False
  proof (cases "re_render_pre_called (exprs s e)")
    case True
    with assms show False by (simp add: render_pre_def)
  next
    case False
    show False
    proof (cases "re_static_type (exprs s e)")
      case None
      with False n assms show False
        by (simp add: render_pre_def refcount_condition_def type_of_expr_def Let_def)
    next
      case (Some t)
      with False n assms show False
        by (simp add: render_pre_def refcount_condition_def type_of_expr_def Let_def)
    qed
  qed
qed

lemma literal_state_eq:
  "literal_state = initial_state\<lparr>exprs := (exprs initial_state)(0 :=
             \<lparr>re_class = LiteralExpr ''1'' [], re_static_type = Some long_type, re_result_var = None,
              re_skippable_refcount = True, re_abstract_expr = None,
              re_render_pre_called = False, re_location = None\<rparr>),
          exprs_next := 1\<rparr>"
  by (simp add: literal_state_def LiteralExpr_init_def ResolvedExpression_init_def initial_state_def)

lemma cast_state:
  "UncheckedCastExpr_init 0 (DeclaredType 0) literal_state
     = (Inr 1, literal_state\<lparr>exprs := (exprs literal_state)(1 :=
             \<lparr>re_class = UncheckedCastExpr 0 (DeclaredType 0), re_static_type = Some (DeclaredType 0),
              re_result_var = None, re_skippable_refcount = False, re_abstract_expr = None,
              re_render_pre_called = False, re_location = None\<rparr>),
          exprs_next := 2\<rparr>)"
  by (simp add: UncheckedCastExpr_init_def ResolvedExpression_init_def literal_state_eq)

text \<open>
  C3, as the code has it. \<^verbatim>\<open>ResolvedExpression.__init__\<close> called without a result
  variable name creates the node with no result variable and checks nothing, whatever
  the type and the \<^verbatim>\<open>skippable_refcount\<close> flag. The requirement is checked when the
  node is pre-rendered: \<^verbatim>\<open>render_pre\<close> on a node that is not skippable, whose type is
  reference-counted (and is not \<^verbatim>\<open>no_compiled_type\<close>) and that has no result variable
  fails with an assertion error; and whenever \<^verbatim>\<open>render_pre\<close> returns, the node is
  skippable, or its type is \<^verbatim>\<open>no_compiled_type\<close> or not reference-counted, or it has a
  result variable.
\<close>

theorem result_slot_checked_at_render:
  "ResolvedExpression_init cls ty None skippable abstract s
     = (Inr (exprs_next s),
        s\<lparr>exprs := (exprs s)(exprs_next s :=
             \<lparr>re_class = cls, re_static_type = ty, re_result_var = None,
              re_skippable_refcount = skippable, re_abstract_expr = abstract,
              re_render_pre_called = False, re_location = None\<rparr>),
          exprs_next := exprs_next s + 1\<rparr>)
   \<and> (\<forall>t. \<not> re_render_pre_called (exprs s e) \<and> \<not> re_skippable_refcount (exprs s e)
          \<and> re_static_type (exprs s e) = Some t \<and> t \<noteq> no_compiled_type \<and> is_refcounted T t
          \<and> re_result_var (exprs s e) = None
        \<longrightarrow> fst (render_pre T R e s) = Inl (AssertionError
             ''ResolvedExpression instances that return ref-counted values must store their result in a local variable''))
   \<and> (\<forall>text. fst (render_pre T R e s) = Inr text
        \<longrightarrow> re_skippable_refcount (exprs s e)
            \<or> (\<exists>t. re_static_type (exprs s e) = Some t
                  \<and> (t = no_compiled_type \<or> \<not> is_refcounted T t \<or> re_result_var (exprs s e) \<noteq> None)))"
  using init_without_check [of cls ty skippable abstract s] render_pre_rejects [of s e _ T R]
    render_pre_accepts [of T R e s]
  by blast

theorem result_slot_checked_at_render_witness:
  "fst (render_pre example_types literal_renderer 1
          (snd (UncheckedCastExpr_init 0 (DeclaredType 0) literal_state)))
     = Inl (AssertionError
         ''ResolvedExpression instances that return ref-counted values must store their result in a local variable'')
   \<and> fst (render_pre example_types literal_renderer 0 literal_state) = Inr []"
proof -
  let ?s = "snd (UncheckedCastExpr_init 0 (DeclaredType 0) literal_state)"
  have p: "\<not> re_render_pre_called (exprs ?s 1) \<and> \<not> re_skippable_refcount (exprs ?s 1)
          \<and> re_static_type (exprs ?s 1) = Some (DeclaredType 0) \<and> DeclaredType 0 \<noteq> no_compiled_type
          \<and> is_refcounted example_types (DeclaredType 0)
          \<and> re_result_var (exprs ?s 1) = None"
    unfolding cast_state by (simp add: example_types_def)
  have a: "fst (render_pre example_types literal_renderer 1 ?s) = Inl (AssertionError
         ''ResolvedExpression instances that return ref-counted values must store their result in a local variable'')"
    by (rule result_slot_checked_at_render [THEN conjunct2, THEN conjunct1, rule_format, OF p])
  have b: "fst (render_pre example_types literal_renderer 0 literal_state) = Inr []"
    unfolding literal_state_eq
    by (simp add: render_pre_def refcount_condition_def literal_renderer_def Let_def is_VariableExpr_def)
  show ?thesis using a b by blast
qed

text \<open>
  C3 as stated fails: \<^verbatim>\<open>UncheckedCastExpr(expr, dest_type)\<close> with a reference-counted
  destination type is constructed without error, is not skippable and has no result
  variable.
\<close>

theorem unchecked_cast_constructed_without_result_slot:
  "fst (UncheckedCastExpr_init 0 (DeclaredType 0) literal_state) = Inr 1
   \<and> re_static_type (exprs (snd (UncheckedCastExpr_init 0 (DeclaredType 0) literal_state)) 1)
       = Some (DeclaredType 0)
   \<and> is_refcounted example_types (DeclaredType 0)
   \<and> \<not> re_skippable_refcount (exprs (snd (UncheckedCastExpr_init 0 (DeclaredType 0) literal_state)) 1)
   \<and> re_result_var (exprs (snd (UncheckedCastExpr_init 0 (DeclaredType 0) literal_state)) 1) = None"
  unfolding cast_state by (simp add: example_types_def)

section \<open>Properties of freezing\<close>

lemma finite_unfrozen: "finite (unfrozen h)"
  by (simp add: unfrozen_def)

lemma unfrozen_step:
  "r < length h \<Longrightarrow> \<not> fr_frozen (h ! r) \<Longrightarrow>
   card (unfrozen (h[r := (h ! r)\<lparr>fr_frozen := True\<rparr>])) < card (unfrozen h)"
proof (rule psubset_card_mono [OF finite_unfrozen])
  assume a: "r < length h" "\<not> fr_frozen (h ! r)"
  have "unfrozen (h[r := (h ! r)\<lparr>fr_frozen := True\<rparr>]) \<subseteq> unfrozen h"
    using a by (auto simp add: unfrozen_def nth_list_update split: if_splits)
  moreover have "r \<in> unfrozen h" using a by (simp add: unfrozen_def)
  moreover have "r \<notin> unfrozen (h[r := (h ! r)\<lparr>fr_frozen := True\<rparr>])"
    using a by (simp add: unfrozen_def)
  ultimately show "unfrozen (h[r := (h ! r)\<lparr>fr_frozen := True\<rparr>]) \<subset> unfrozen h" by blast
qed

termination freeze_pending
proof (relation "measures [\<lambda>(h, p). card (unfrozen h), \<lambda>(h, p). length p]")
  show "wf (measures [\<lambda>(h, p). card (unfrozen h), \<lambda>(h, p). length p])" by simp
next
  fix h :: "frozable list" and r rest
  assume "r < length h \<and> \<not> fr_frozen (h ! r)"
  then show "((h[r := (h ! r)\<lparr>fr_frozen := True\<rparr>], frozable_values (fr_attrs (h ! r)) @ rest), (h, r # rest))
      \<in> measures [\<lambda>(h, p). card (unfrozen h), \<lambda>(h, p). length p]"
    using unfrozen_step [of r h] by simp
next
  fix h :: "frozable list" and r rest
  assume "\<not> (r < length h \<and> \<not> fr_frozen (h ! r))"
  then show "((h, rest), (h, r # rest)) \<in> measures [\<lambda>(h, p). card (unfrozen h), \<lambda>(h, p). length p]"
    by simp
qed

declare freeze_pending.simps [simp del]

lemma freeze_pending_unfold:
  "r < length h \<and> \<not> fr_frozen (h ! r) \<Longrightarrow>
   freeze_pending h (r # rest)
     = freeze_pending (h[r := (h ! r)\<lparr>fr_frozen := True\<rparr>]) (frozable_values (fr_attrs (h ! r)) @ rest)"
  "\<not> (r < length h \<and> \<not> fr_frozen (h ! r)) \<Longrightarrow> freeze_pending h (r # rest) = freeze_pending h rest"
   apply (subst freeze_pending.simps, simp)
  apply (subst freeze_pending.simps, auto)
  done

lemma freeze_pending_keeps:
  "length (freeze_pending h p) = length h
   \<and> (\<forall>r < length h. fr_frozen (h ! r) \<longrightarrow> fr_frozen (freeze_pending h p ! r))"
proof (induction h p rule: freeze_pending.induct)
  case (1 h)
  show ?case by (simp add: freeze_pending.simps)
next
  case (2 h r rest)
  show ?case
  proof (cases "r < length h \<and> \<not> fr_frozen (h ! r)")
    case True
    from 2(1) [OF True] show ?thesis
      unfolding freeze_pending_unfold(1) [OF True] using True
      by (auto simp add: nth_list_update)
  next
    case False
    from 2(2) [OF False] show ?thesis
      unfolding freeze_pending_unfold(2) [OF False] .
  qed
qed

lemma freeze_root_frozen: "self < length h \<Longrightarrow> fr_frozen (freeze h self ! self)"
  using freeze_pending_keeps [of "h[self := (h ! self)\<lparr>fr_frozen := True\<rparr>]" "frozable_values (fr_attrs (h ! self))"]
  by (auto simp add: freeze_def trigger_freeze_def)

lemma freeze_length: "length (freeze h self) = length h"
  using freeze_pending_keeps [of "h[self := (h ! self)\<lparr>fr_frozen := True\<rparr>]" "frozable_values (fr_attrs (h ! self))"]
  by (auto simp add: freeze_def trigger_freeze_def)

lemma freeze_idempotent: "freeze (freeze h self) self = freeze h self"
proof (cases "self < length h")
  case True
  then show ?thesis
    using freeze_root_frozen [of self h] freeze_length [of h self]
    by (subst freeze_def) (simp add: trigger_freeze_def)
next
  case False
  then show ?thesis by (simp add: freeze_def trigger_freeze_def)
qed

lemma frozen_raises:
  "fr_frozen (h ! self) \<Longrightarrow> invoke getattr_impl op other h self = (Inl (illegal_access op), h)"
  by (cases op) (simp_all add: protect_def)

lemma freeze_pending_closed:
  "closed h p \<Longrightarrow> closed (freeze_pending h p) []"
proof (induction h p rule: freeze_pending.induct)
  case (1 h)
  then show ?case by (simp add: freeze_pending.simps)
next
  case (2 h r rest)
  show ?case
  proof (cases "r < length h \<and> \<not> fr_frozen (h ! r)")
    case True
    let ?h = "h[r := (h ! r)\<lparr>fr_frozen := True\<rparr>]"
    have at: "fr_attrs (?h ! obj) = fr_attrs (h ! obj)" if "obj < length h" for obj
      using that True by (cases "obj = r") simp_all
    have fz: "fr_frozen (?h ! obj) \<longleftrightarrow> obj = r \<or> fr_frozen (h ! obj)" if "obj < length h" for obj
      using that True by (cases "obj = r") simp_all
    have "closed ?h (frozable_values (fr_attrs (h ! r)) @ rest)"
      unfolding closed_def
    proof (intro allI impI ballI)
      fix obj c
      assume o: "obj < length ?h" and f: "fr_frozen (?h ! obj)"
        and c: "c \<in> set (frozable_values (fr_attrs (?h ! obj)))" and cl: "c < length ?h"
      from o have o': "obj < length h" by simp
      from cl have cl': "c < length h" by simp
      from c at [OF o'] have c': "c \<in> set (frozable_values (fr_attrs (h ! obj)))" by simp
      show "fr_frozen (?h ! c) \<or> c \<in> set (frozable_values (fr_attrs (h ! r)) @ rest)"
      proof (cases "obj = r")
        case True
        with c' show ?thesis by simp
      next
        case False
        with f fz [OF o'] have "fr_frozen (h ! obj)" by simp
        with 2(3) o' c' cl' have "fr_frozen (h ! c) \<or> c \<in> set (r # rest)"
          unfolding closed_def by blast
        then show ?thesis using fz [OF cl'] by auto
      qed
    qed
    from 2(1) [OF True this] show ?thesis
      unfolding freeze_pending_unfold(1) [OF True] .
  next
    case False
    have "closed h rest"
      unfolding closed_def
    proof (intro allI impI ballI)
      fix obj c
      assume o: "obj < length h" and f: "fr_frozen (h ! obj)"
        and c: "c \<in> set (frozable_values (fr_attrs (h ! obj)))" and cl: "c < length h"
      with 2(3) have "fr_frozen (h ! c) \<or> c \<in> set (r # rest)" unfolding closed_def by blast
      with False cl show "fr_frozen (h ! c) \<or> c \<in> set rest" by auto
    qed
    from 2(2) [OF False this] show ?thesis
      unfolding freeze_pending_unfold(2) [OF False] .
  qed
qed

lemma freeze_closed: "closed h [] \<Longrightarrow> closed (freeze h self) []"
proof (cases "self < length h \<and> \<not> fr_frozen (h ! self)")
  case False
  assume "closed h []"
  with False show ?thesis by (auto simp add: freeze_def trigger_freeze_def)
next
  case True
  assume cl: "closed h []"
  let ?h = "h[self := (h ! self)\<lparr>fr_frozen := True\<rparr>]"
  have at: "fr_attrs (?h ! obj) = fr_attrs (h ! obj)" if "obj < length h" for obj
    using that True by (cases "obj = self") simp_all
  have fz: "fr_frozen (?h ! obj) \<longleftrightarrow> obj = self \<or> fr_frozen (h ! obj)" if "obj < length h" for obj
    using that True by (cases "obj = self") simp_all
  have "closed ?h (frozable_values (fr_attrs (h ! self)))"
    unfolding closed_def
  proof (intro allI impI ballI)
    fix obj c
    assume o: "obj < length ?h" and f: "fr_frozen (?h ! obj)"
      and c: "c \<in> set (frozable_values (fr_attrs (?h ! obj)))" and cl': "c < length ?h"
    from o have o': "obj < length h" by simp
    from cl' have cl'': "c < length h" by simp
    from c at [OF o'] have c': "c \<in> set (frozable_values (fr_attrs (h ! obj)))" by simp
    show "fr_frozen (?h ! c) \<or> c \<in> set (frozable_values (fr_attrs (h ! self)))"
    proof (cases "obj = self")
      case True
      with c' show ?thesis by simp
    next
      case False
      with f fz [OF o'] have "fr_frozen (h ! obj)" by simp
      with cl o' c' cl'' have "fr_frozen (h ! c) \<or> c \<in> set []" unfolding closed_def by blast
      then have "fr_frozen (h ! c)" by simp
      then show ?thesis using fz [OF cl''] by blast
    qed
  qed
  from freeze_pending_closed [OF this]
  have r: "closed (freeze_pending ?h (frozable_values (fr_attrs (h ! self)))) []" .
  have "freeze h self = freeze_pending ?h (frozable_values (fr_attrs (h ! self)))"
    using True unfolding freeze_def trigger_freeze_def by simp
  with r show ?thesis by simp
qed

lemma freeze_example:
  "freeze example_heap 0
     = [\<lparr>fr_class = ''Arithmetic'', fr_frozen = True,
         fr_attrs = [(''location'', Other_value), (''l'', Frozable_ref 1), (''r'', Other_value)]\<rparr>,
        \<lparr>fr_class = ''FieldAccess'', fr_frozen = True,
         fr_attrs = [(''location'', Other_value), (''receiver'', Frozable_ref 0)]\<rparr>]"
  by code_simp

text \<open>
  C7. Freezing an object twice gives the same store as freezing it once. After
  \<^verbatim>\<open>freeze()\<close> the object is frozen, and a store in which the \<^verbatim>\<open>Frozable\<close>
  attributes of frozen objects are frozen stays so. On a frozen object each of the
  protected methods (the comparisons, the arithmetic operators, the boolean connectors
  and the dynamic field access) raises the illegal-access exception and leaves the store
  unchanged, so every further attempt raises it again.
\<close>

theorem frozen_nodes:
  "freeze (freeze h self) self = freeze h self
   \<and> (self < length h \<longrightarrow> fr_frozen (freeze h self ! self))
   \<and> (closed h [] \<longrightarrow> closed (freeze h self) [])
   \<and> (fr_frozen (h ! n) \<longrightarrow>
        invoke getattr_impl op other h n = (Inl (illegal_access op), h)
        \<and> invoke getattr_impl op other (snd (invoke getattr_impl op other h n)) n
            = (Inl (illegal_access op), h))
   \<and> (self < length h \<longrightarrow>
        invoke getattr_impl op other (freeze h self) self = (Inl (illegal_access op), freeze h self))"
  using freeze_idempotent [of h self] freeze_root_frozen [of self h] freeze_closed [of h self]
    frozen_raises [of h n getattr_impl op other] frozen_raises [of "freeze h self" self getattr_impl op other]
  by simp

theorem frozen_nodes_witness:
  "map fr_frozen (freeze example_heap 0) = [True, True]
   \<and> freeze (freeze example_heap 0) 0 = freeze example_heap 0
   \<and> invoke no_getattr Add_sugar Other_value (freeze example_heap 0) 0
       = (Inl (PyException '' Illegal method call: __add__''), freeze example_heap 0)
   \<and> invoke no_getattr (Getattr ''foo'') Other_value (freeze example_heap 0) 1
       = (Inl (PyException ''Illegal field access: foo''), freeze example_heap 0)
   \<and> fst (invoke no_getattr Add_sugar Other_value example_heap 0) = Inr 2"
proof -
  have l: "0 < length example_heap" by (simp add: example_heap_def)
  have f1: "fr_frozen (freeze example_heap 0 ! 1)" unfolding freeze_example by simp
  note a = frozen_nodes [of example_heap 0 0 no_getattr Add_sugar Other_value]
  note b = frozen_nodes [of "freeze example_heap 0" 0 1 no_getattr "Getattr ''foo''" Other_value]
  from a have a1: "freeze (freeze example_heap 0) 0 = freeze example_heap 0" by blast
  from a l have a2: "invoke no_getattr Add_sugar Other_value (freeze example_heap 0) 0
       = (Inl (illegal_access Add_sugar), freeze example_heap 0)" by blast
  from b f1 have b1: "invoke no_getattr (Getattr ''foo'') Other_value (freeze example_heap 0) 1
       = (Inl (illegal_access (Getattr ''foo'')), freeze example_heap 0)" by blast
  have c: "fst (invoke no_getattr Add_sugar Other_value example_heap 0) = Inr 2"
    by (simp add: protect_def Arithmetic_new_def new_node_def example_heap_def)
  have m: "map fr_frozen (freeze example_heap 0) = [True, True]" unfolding freeze_example by simp
  show ?thesis using a1 a2 b1 c m by simp
qed

end
